theory Spec2Isabelle
  imports Main "HOL-Library.Multiset"
begin

section \<open>Syntax trees of the System module transformer\<close>

text \<open>
  The development embeds \<^verbatim>\<open>src/compiler/transformers/module/system.ts\<close>.
  Nodes are values; where the source relies on the identity of a node (generated names,
  the resolver's answers, \<^verbatim>\<open>contains(externalImports, node)\<close>) the node carries
  a numeric id, as the compiler's nodes do.
\<close>

text \<open>
  An identifier is either written in the program or made by the factory
  (\<^verbatim>\<open>createIdentifier\<close>), a unique name (\<^verbatim>\<open>createUniqueName(text)\<close>, told
  apart by a serial number), or the name generated for a node
  (\<^verbatim>\<open>getGeneratedNameForNode(node)\<close>, told apart by the node's id).
\<close>

datatype ident =
    Identifier string
  | UniqueName string nat
  | GeneratedNameForNode nat

text \<open>
  Modelled from the spec: the \<^verbatim>\<open>text\<close> property of an identifier node, which the
  host's node factory fills in (the factory is not part of this file). A written
  identifier and a unique name carry their text; a name generated for a node has none
  until it is printed.
\<close>

fun identifier_text :: "ident \<Rightarrow> string" where
  "identifier_text (Identifier s) = s"
| "identifier_text (UniqueName s k) = s"
| "identifier_text (GeneratedNameForNode k) = []"

datatype modifier_flags = ModifierFlags_Export | ModifierFlags_Default | ModifierFlags_Other nat

datatype node_emit_flags = EmitEmitHelpers | NoSubstitution

datatype unary_operator = PlusPlusToken | MinusMinusToken | ExclamationToken

datatype binary_operator =
    EqualsToken
  | PlusToken
  | MinusToken
  | AmpersandAmpersandToken
  | ExclamationEqualsEqualsToken
  | CommaToken

datatype property_name = IdentifierName string | StringLiteralName string

text \<open>
  A binding name is an identifier or a binding pattern; of a pattern's elements only
  their names matter to this file (\<^verbatim>\<open>hoistBindingElement\<close>).
\<close>

datatype binding_name =
    BindingIdentifier ident
  | BindingPattern "binding_name list"

record export_specifier =
  specifier_propertyName :: "ident option"
  specifier_name :: ident

datatype named_bindings =
    NamespaceImport ident
  | NamedImports "export_specifier list"

record import_clause =
  clause_name :: "ident option"
  namedBindings :: "named_bindings option"

text \<open>
  Expressions and statements. \<open>MissingExpression\<close> is the value \<^verbatim>\<open>undefined\<close>
  standing where an expression node is expected (the source passes one to
  \<^verbatim>\<open>createCall\<close> when the file has no module name, and reads per-file variables
  that may be unset). Node kinds this file only passes through are \<open>OtherExpression\<close>
  and \<open>OtherStatement\<close>, named by their id.
  \<open>HasOwnPropertyCall\<close> is the node of \<^verbatim>\<open>createHasOwnProperty(target, key)\<close> and
  \<open>FlattenedDestructuring\<close> the result of the host's destructuring flattener, which
  this file treats as a black box.
\<close>

datatype expression =
    IdentifierNode ident
  | StringLiteral string
  | NumericLiteral int
  | BooleanLiteral bool
  | PrefixUnaryExpression unary_operator expression
  | PostfixUnaryExpression unary_operator expression
  | BinaryExpression expression binary_operator expression
  | CallExpression expression "expression list"
  | PropertyAccessExpression expression string
  | ElementAccessExpression expression expression
  | ObjectLiteralExpression "(property_name \<times> expression) list" bool
  | ArrayLiteralExpression "expression list"
  | FunctionExpression bool "ident option" "ident list" statement
  | ClassExpression "ident option" nat
  | HasOwnPropertyCall expression expression
  | FlattenedDestructuring binding_name expression
  | OtherExpression nat
  | MissingExpression
and statement =
    ImportDeclaration nat "import_clause option" expression
  | ImportEqualsDeclaration nat ident expression
  | ExportDeclaration nat "export_specifier list option" "expression option"
  | ExportAssignment nat bool expression
  | VariableStatement "modifier_flags list" "(binding_name \<times> expression option) list"
  | FunctionDeclaration nat "modifier_flags list" bool "ident option" "ident list" statement
  | ClassDeclaration nat "modifier_flags list" "ident option" nat
  | ExpressionStatement expression
  | ReturnStatement expression
  | IfStatement expression statement
  | ForInStatement "(binding_name \<times> expression option) list" expression statement
  | Block "statement list" bool "node_emit_flags list"
  | OtherStatement nat

section \<open>Node builders\<close>

text \<open>
  Modelled from the spec: the node builders of the host's factory
  (\<^verbatim>\<open>factory.ts\<close>, not part of this file). Each builds the node its name says;
  \<^verbatim>\<open>createLiteral\<close> is written as the literal's constructor.
\<close>

definition createSubtract :: "expression \<Rightarrow> expression \<Rightarrow> expression" where
  "createSubtract l r = BinaryExpression l MinusToken r"

definition createAdd :: "expression \<Rightarrow> expression \<Rightarrow> expression" where
  "createAdd l r = BinaryExpression l PlusToken r"

definition createAssignment :: "expression \<Rightarrow> expression \<Rightarrow> expression" where
  "createAssignment l r = BinaryExpression l EqualsToken r"

definition createLogicalAnd :: "expression \<Rightarrow> expression \<Rightarrow> expression" where
  "createLogicalAnd l r = BinaryExpression l AmpersandAmpersandToken r"

definition createStrictInequality :: "expression \<Rightarrow> expression \<Rightarrow> expression" where
  "createStrictInequality l r = BinaryExpression l ExclamationEqualsEqualsToken r"

definition createLogicalNot :: "expression \<Rightarrow> expression" where
  "createLogicalNot e = PrefixUnaryExpression ExclamationToken e"

definition createPrefix :: "unary_operator \<Rightarrow> expression \<Rightarrow> expression" where
  "createPrefix operator operand = PrefixUnaryExpression operator operand"

definition createCall :: "expression \<Rightarrow> expression list \<Rightarrow> expression" where
  "createCall e argumentsArray = CallExpression e argumentsArray"

definition createHasOwnProperty :: "expression \<Rightarrow> expression \<Rightarrow> expression" where
  "createHasOwnProperty target propertyName = HasOwnPropertyCall target propertyName"

definition createStatement :: "expression \<Rightarrow> statement" where
  "createStatement e = ExpressionStatement e"

text \<open>An identifier-valued variable read where a node is expected.\<close>

definition identifier_node :: "ident option \<Rightarrow> expression" where
  "identifier_node v = (case v of None \<Rightarrow> MissingExpression | Some i \<Rightarrow> IdentifierNode i)"

section \<open>Per-file state and the services the transformer consumes\<close>

text \<open>
  A source file, as far as this file reads it. \<open>externalModuleIndicator\<close> is what
  \<^verbatim>\<open>isExternalModule(node)\<close> tests; \<open>renamedDependencies\<close> is the optional
  specifier-rename table.
\<close>

record source_file =
  externalModuleIndicator :: bool
  moduleName :: "string option"
  renamedDependencies :: "(string \<times> string) list option"
  statements :: "statement list"

text \<open>
  The variables declared by \<^verbatim>\<open>transformSystemModule\<close> and shared by its inner
  functions (lines 29 to 37). A variable that holds \<^verbatim>\<open>undefined\<close> is \<open>None\<close>.
\<close>

record file_state =
  currentSourceFile :: "source_file option"
  externalImports :: "statement list option"
  exportSpecifiers :: "(string \<times> export_specifier list) list option"
  exportEquals :: "statement option"
  hasExportStars :: "bool option"
  exportFunctionForFile :: "ident option"
  contextObjectForFile :: "ident option"
  exportedLocalNames :: "ident list option"
  exportedFunctionDeclarations :: "statement list option"

datatype container_kind = SourceFileContainer | ModuleDeclarationContainer

text \<open>
  The resolver service, taken as a parameter: the answers it gives for an identifier, an
  export assignment or declaration, and an export specifier.
  \<open>getReferencedValueDeclaration\<close> is read for its truthiness only.
\<close>

record emit_resolver =
  getReferencedExportContainer :: "ident \<Rightarrow> container_kind option"
  getReferencedValueDeclaration :: "ident \<Rightarrow> bool"
  isValueAliasDeclaration :: "statement \<Rightarrow> bool"
  isValueAliasSpecifier :: "export_specifier \<Rightarrow> bool"

section \<open>Export calls and the postfix substitution\<close>

text \<open>\<^verbatim>\<open>createExportExpression\<close> (lines 1162 to 1165).\<close>

definition createExportExpression :: "file_state \<Rightarrow> expression \<Rightarrow> expression \<Rightarrow> expression" where
  "createExportExpression st nm v =
     (let exportName = (case nm of IdentifierNode i \<Rightarrow> StringLiteral (identifier_text i) | _ \<Rightarrow> nm)
      in createCall (identifier_node (exportFunctionForFile st)) [exportName, v])"

text \<open>\<^verbatim>\<open>createExportStatement\<close> (lines 1172 to 1174).\<close>

definition createExportStatement :: "file_state \<Rightarrow> expression \<Rightarrow> expression \<Rightarrow> statement" where
  "createExportStatement st nm v = createStatement (createExportExpression st nm v)"


section \<open>Dependency groups\<close>

datatype transform_failure =
    DebugAssertionFailed
  | UndefinedDereference
  | OutsideModelledFragment

text \<open>The \<^verbatim>\<open>DependencyGroup\<close> interface (lines 7 to 10).\<close>

record dependency_group =
  group_name :: expression
  group_externalImports :: "statement list"

text \<open>
  Modelled from the spec: \<^verbatim>\<open>getExternalModuleName\<close> of the host's utilities (not in
  this file), the module specifier expression of an import or export entry;
  \<^verbatim>\<open>undefined\<close> for a node that has none.
\<close>

fun getExternalModuleName :: "statement \<Rightarrow> expression" where
  "getExternalModuleName (ImportDeclaration k c m) = m"
| "getExternalModuleName (ImportEqualsDeclaration k n m) = m"
| "getExternalModuleName (ExportDeclaration k c m) =
     (case m of None \<Rightarrow> MissingExpression | Some e \<Rightarrow> e)"
| "getExternalModuleName s = MissingExpression"

text \<open>
  \<^verbatim>\<open>tryRenameExternalModule\<close> (lines 1064 to 1070). Reading a property of
  \<^verbatim>\<open>currentSourceFile\<close> while it is \<^verbatim>\<open>undefined\<close> throws.
\<close>

definition tryRenameExternalModule :: "file_state \<Rightarrow> string \<Rightarrow> transform_failure + expression option" where
  "tryRenameExternalModule st txt =
     (case currentSourceFile st of
        None \<Rightarrow> Inl UndefinedDereference
      | Some f \<Rightarrow>
          (case renamedDependencies f of
             None \<Rightarrow> Inr None
           | Some renamed \<Rightarrow>
               (case map_of renamed txt of
                  Some t \<Rightarrow> Inr (Some (StringLiteral t))
                | None \<Rightarrow> Inr None)))"

text \<open>
  \<^verbatim>\<open>getExternalModuleNameLiteral\<close> (lines 1050 to 1058): the specifier as a string
  literal, renamed if the file's table says so, and \<^verbatim>\<open>undefined\<close> for a specifier
  that is not a string literal. Reading \<^verbatim>\<open>kind\<close> of a missing specifier throws.
\<close>

definition getExternalModuleNameLiteral :: "file_state \<Rightarrow> statement \<Rightarrow> transform_failure + expression" where
  "getExternalModuleNameLiteral st importNode =
     (case getExternalModuleName importNode of
        MissingExpression \<Rightarrow> Inl UndefinedDereference
      | StringLiteral txt \<Rightarrow>
          (case tryRenameExternalModule st txt of
             Inl e \<Rightarrow> Inl e
           | Inr (Some renamed) \<Rightarrow> Inr renamed
           | Inr None \<Rightarrow> Inr (StringLiteral txt))
      | _ \<Rightarrow> Inr MissingExpression)"

text \<open>
  \<^verbatim>\<open>collectDependencyGroups\<close> (lines 1207 to 1230). The loop over the entries is
  the recursion \<open>collectDependencyGroups_loop\<close>, which carries the two locals
  \<^verbatim>\<open>groupIndices\<close> and \<^verbatim>\<open>dependencyGroups\<close>. Reading \<^verbatim>\<open>text\<close> of a
  missing literal, or \<^verbatim>\<open>externalImports\<close> of a group that is not there, throws.
\<close>

fun collectDependencyGroups_loop ::
  "file_state \<Rightarrow> statement list \<Rightarrow> (string \<rightharpoonup> nat) \<Rightarrow> dependency_group list
     \<Rightarrow> transform_failure + dependency_group list" where
  "collectDependencyGroups_loop st [] groupIndices dependencyGroups = Inr dependencyGroups"
| "collectDependencyGroups_loop st (externalImport # rest) groupIndices dependencyGroups =
     (case getExternalModuleNameLiteral st externalImport of
        Inl e \<Rightarrow> Inl e
      | Inr externalModuleName \<Rightarrow>
          (case externalModuleName of
             StringLiteral txt \<Rightarrow>
               (case groupIndices txt of
                  Some groupIndex \<Rightarrow>
                    if groupIndex < length dependencyGroups
                    then collectDependencyGroups_loop st rest groupIndices
                           (dependencyGroups
                              [groupIndex := (dependencyGroups ! groupIndex)
                                 \<lparr>group_externalImports :=
                                    group_externalImports (dependencyGroups ! groupIndex)
                                      @ [externalImport]\<rparr>])
                    else Inl UndefinedDereference
                | None \<Rightarrow>
                    collectDependencyGroups_loop st rest
                      (groupIndices(txt \<mapsto> length dependencyGroups))
                      (dependencyGroups
                         @ [\<lparr>group_name = externalModuleName,
                              group_externalImports = [externalImport]\<rparr>]))
           | _ \<Rightarrow> Inl UndefinedDereference))"

definition collectDependencyGroups ::
  "file_state \<Rightarrow> statement list \<Rightarrow> transform_failure + dependency_group list" where
  "collectDependencyGroups st imports = collectDependencyGroups_loop st imports Map.empty []"

text \<open>\<^verbatim>\<open>getNameOfDependencyGroup\<close> (lines 1232 to 1234).\<close>

definition getNameOfDependencyGroup :: "dependency_group \<Rightarrow> expression" where
  "getNameOfDependencyGroup dependencyGroup = group_name dependencyGroup"


definition group_text :: "dependency_group \<Rightarrow> string" where
  "group_text g = (case group_name g of StringLiteral txt \<Rightarrow> txt | _ \<Rightarrow> [])"


section \<open>Services of the host\<close>

text \<open>
  The result of \<^verbatim>\<open>collectExternalModuleInfo\<close> (a utility of the host, not in this
  file): the external import and export entries in source order, the map of local export
  specifiers, the \<^verbatim>\<open>export =\<close> record and the flag for \<^verbatim>\<open>export * from\<close>.
\<close>

record module_info =
  info_externalImports :: "statement list"
  info_exportSpecifiers :: "(string \<times> export_specifier list) list"
  info_exportEquals :: "statement option"
  info_hasExportStars :: bool

record compiler_options =
  isolatedModules :: bool

text \<open>
  What the transformer is given: the compiler options, the resolver, and the two
  utilities it calls on a whole file. \<^verbatim>\<open>addPrologueDirectives(target, source)\<close>
  yields the directives it copies to the target and the offset of the first statement
  after them. All are parameters of the development.
\<close>

record host =
  compilerOptions :: compiler_options
  emitResolver :: emit_resolver
  collectExternalModuleInfo :: "source_file \<Rightarrow> emit_resolver \<Rightarrow> module_info"
  addPrologueDirectives :: "statement list \<Rightarrow> statement list \<times> nat"

text \<open>
  Modelled from the spec: the lexical/emit context service (not in this file). It keeps
  the hoisted variable names and function declarations of the current lexical
  environment, the environments entered before it, and the serial number of the next
  unique name.
\<close>

record emit_context =
  hoistedVariableDeclarations :: "ident list"
  hoistedFunctionDeclarations :: "statement list"
  lexicalEnvironmentStack :: "(ident list \<times> statement list) list"
  uniqueNameCount :: nat

text \<open>
  Modelled from the spec: \<^verbatim>\<open>createUniqueName(text)\<close>, collision-free name
  generation; two calls never give the same identifier.
\<close>

definition createUniqueName :: "string \<Rightarrow> emit_context \<Rightarrow> ident \<times> emit_context" where
  "createUniqueName txt cx =
     (UniqueName txt (uniqueNameCount cx), cx\<lparr>uniqueNameCount := Suc (uniqueNameCount cx)\<rparr>)"

text \<open>
  Modelled from the spec: \<^verbatim>\<open>hoistVariableDeclaration\<close> and
  \<^verbatim>\<open>hoistFunctionDeclaration\<close> register a declaration in the current environment;
  \<^verbatim>\<open>startLexicalEnvironment\<close> enters a fresh one and
  \<^verbatim>\<open>endLexicalEnvironment\<close> leaves it, returning the accumulated hoisted statements
  (one variable statement for the hoisted names, if any, then the hoisted functions).
\<close>

definition hoistVariableDeclaration :: "ident \<Rightarrow> emit_context \<Rightarrow> emit_context" where
  "hoistVariableDeclaration nm cx =
     cx\<lparr>hoistedVariableDeclarations := hoistedVariableDeclarations cx @ [nm]\<rparr>"

definition hoistFunctionDeclaration :: "statement \<Rightarrow> emit_context \<Rightarrow> emit_context" where
  "hoistFunctionDeclaration func cx =
     cx\<lparr>hoistedFunctionDeclarations := hoistedFunctionDeclarations cx @ [func]\<rparr>"

definition startLexicalEnvironment :: "emit_context \<Rightarrow> emit_context" where
  "startLexicalEnvironment cx =
     cx\<lparr>lexicalEnvironmentStack :=
          (hoistedVariableDeclarations cx, hoistedFunctionDeclarations cx)
            # lexicalEnvironmentStack cx,
        hoistedVariableDeclarations := [],
        hoistedFunctionDeclarations := []\<rparr>"

definition endLexicalEnvironment :: "emit_context \<Rightarrow> statement list \<times> emit_context" where
  "endLexicalEnvironment cx =
     ((if hoistedVariableDeclarations cx = [] then []
       else [VariableStatement []
               (map (\<lambda>v. (BindingIdentifier v, None)) (hoistedVariableDeclarations cx))])
        @ hoistedFunctionDeclarations cx,
      (case lexicalEnvironmentStack cx of
         [] \<Rightarrow> cx\<lparr>hoistedVariableDeclarations := [], hoistedFunctionDeclarations := []\<rparr>
       | (vs, fs) # outer \<Rightarrow>
           cx\<lparr>hoistedVariableDeclarations := vs, hoistedFunctionDeclarations := fs,
              lexicalEnvironmentStack := outer\<rparr>))"

text \<open>
  Modelled from the spec: node properties and utilities of the host (not in this file).
  \<open>node_id\<close>, \<open>node_name\<close> and \<open>node_modifiers\<close> read a declaration's identity, its
  \<^verbatim>\<open>name\<close> and its \<^verbatim>\<open>modifiers\<close>; a node kind that carries none in this model
  answers 0, \<^verbatim>\<open>undefined\<close> and no modifiers. \<^verbatim>\<open>hasModifier(node, flag)\<close> tests a
  modifier flag, \<^verbatim>\<open>getGeneratedNameForNode(node)\<close> names a node by its identity,
  \<^verbatim>\<open>contains(array, value)\<close> is membership (false for a missing array), and
  \<^verbatim>\<open>isEmpty(map)\<close> holds of a map without keys, and of a missing map.
\<close>

fun node_id :: "statement \<Rightarrow> nat" where
  "node_id (ImportDeclaration k c m) = k"
| "node_id (ImportEqualsDeclaration k n m) = k"
| "node_id (ExportDeclaration k c m) = k"
| "node_id (ExportAssignment k b e) = k"
| "node_id (FunctionDeclaration k mods a n ps b) = k"
| "node_id (ClassDeclaration k mods n m) = k"
| "node_id s = 0"

fun node_name :: "statement \<Rightarrow> ident option" where
  "node_name (ImportEqualsDeclaration k n m) = Some n"
| "node_name (FunctionDeclaration k mods a n ps b) = n"
| "node_name (ClassDeclaration k mods n m) = n"
| "node_name s = None"

fun node_modifiers :: "statement \<Rightarrow> modifier_flags list" where
  "node_modifiers (VariableStatement mods ds) = mods"
| "node_modifiers (FunctionDeclaration k mods a n ps b) = mods"
| "node_modifiers (ClassDeclaration k mods n m) = mods"
| "node_modifiers s = []"

definition hasModifier :: "statement \<Rightarrow> modifier_flags \<Rightarrow> bool" where
  "hasModifier node flag = (flag \<in> set (node_modifiers node))"

definition getGeneratedNameForNode :: "statement \<Rightarrow> ident" where
  "getGeneratedNameForNode node = GeneratedNameForNode (node_id node)"

definition contains_node :: "statement list option \<Rightarrow> statement \<Rightarrow> bool" where
  "contains_node array node = (case array of None \<Rightarrow> False | Some xs \<Rightarrow> node \<in> set xs)"

definition isEmpty :: "(string \<times> export_specifier list) list option \<Rightarrow> bool" where
  "isEmpty m = (case m of None \<Rightarrow> True | Some entries \<Rightarrow> entries = [])"

text \<open>
  Modelled from the spec: \<^verbatim>\<open>createFunctionDeclaration(modifiers, asteriskToken, name,
  parameters, body, location)\<close> of the host's factory. The new declaration has exactly
  the modifiers it is given (\<^verbatim>\<open>undefined\<close> is none); in this model it keeps the id of
  the node whose location it takes, and 0 without one.
\<close>

definition createFunctionDeclaration ::
  "modifier_flags list \<Rightarrow> bool \<Rightarrow> ident \<Rightarrow> ident list \<Rightarrow> statement \<Rightarrow> nat \<Rightarrow> statement" where
  "createFunctionDeclaration mods asteriskToken nm parameters body location =
     FunctionDeclaration location mods asteriskToken (Some nm) parameters body"

text \<open>
  Modelled from the spec: \<^verbatim>\<open>inlineExpressions\<close> of the host's factory, which joins
  expressions with the comma operator in source order.
\<close>

fun inlineExpressions :: "expression list \<Rightarrow> expression" where
  "inlineExpressions [] = MissingExpression"
| "inlineExpressions [e] = e"
| "inlineExpressions (e # e' # es) = inlineExpressions (BinaryExpression e CommaToken e' # es)"

text \<open>
  Modelled from the spec: \<^verbatim>\<open>getNamespaceDeclarationNode\<close> and
  \<^verbatim>\<open>isDefaultImport\<close> of the host's utilities. The first finds the declaration that
  binds the whole module (\<^verbatim>\<open>import * as ns\<close>, or an import-equals declaration) and is
  given here by that declaration's name; the second holds of an import declaration
  whose clause has a default binding.
\<close>

fun getNamespaceDeclarationNode :: "statement \<Rightarrow> ident option" where
  "getNamespaceDeclarationNode (ImportEqualsDeclaration k n m) = Some n"
| "getNamespaceDeclarationNode (ImportDeclaration k c m) =
     (case c of
        None \<Rightarrow> None
      | Some clause \<Rightarrow>
          (case namedBindings clause of Some (NamespaceImport n) \<Rightarrow> Some n | _ \<Rightarrow> None))"
| "getNamespaceDeclarationNode s = None"

fun isDefaultImport :: "statement \<Rightarrow> bool" where
  "isDefaultImport (ImportDeclaration k c m) =
     (case c of None \<Rightarrow> False | Some clause \<Rightarrow> clause_name clause \<noteq> None)"
| "isDefaultImport s = False"

section \<open>Recording exports\<close>

text \<open>\<^verbatim>\<open>recordExportName\<close> (lines 1236 to 1242).\<close>

definition recordExportName :: "ident \<Rightarrow> file_state \<Rightarrow> file_state" where
  "recordExportName nm st =
     st\<lparr>exportedLocalNames :=
          Some ((case exportedLocalNames st of None \<Rightarrow> [] | Some ns \<Rightarrow> ns) @ [nm])\<rparr>"

text \<open>\<^verbatim>\<open>getDeclarationName\<close> (lines 1094 to 1096).\<close>

definition getDeclarationName :: "statement \<Rightarrow> ident" where
  "getDeclarationName node =
     (case node_name node of Some n \<Rightarrow> n | None \<Rightarrow> getGeneratedNameForNode node)"

text \<open>\<^verbatim>\<open>createDeclarationExport\<close> (lines 1180 to 1184).\<close>

definition createDeclarationExport :: "file_state \<Rightarrow> statement \<Rightarrow> statement" where
  "createDeclarationExport st node =
     (let declarationName = getDeclarationName node;
          exportName = (if hasModifier node ModifierFlags_Default
                        then StringLiteral ''default''
                        else IdentifierNode declarationName)
      in createExportStatement st exportName (IdentifierNode declarationName))"

text \<open>\<^verbatim>\<open>recordExportedFunctionDeclaration\<close> (lines 1244 to 1250).\<close>

definition recordExportedFunctionDeclaration :: "statement \<Rightarrow> file_state \<Rightarrow> file_state" where
  "recordExportedFunctionDeclaration node st =
     st\<lparr>exportedFunctionDeclarations :=
          Some ((case exportedFunctionDeclarations st of None \<Rightarrow> [] | Some ds \<Rightarrow> ds)
                @ [createDeclarationExport st node])\<rparr>"

text \<open>
  \<^verbatim>\<open>getLocalNameForExternalImport\<close> (lines 1077 to 1088); the identifier made from
  the source text of the namespace declaration's name is the identifier with that
  name's text.
\<close>

definition getLocalNameForExternalImport :: "statement \<Rightarrow> ident option" where
  "getLocalNameForExternalImport node =
     (case (getNamespaceDeclarationNode node, isDefaultImport node) of
        (Some namespaceName, False) \<Rightarrow> Some (Identifier (identifier_text namespaceName))
      | _ \<Rightarrow>
          (case node of
             ImportDeclaration k c m \<Rightarrow>
               if c \<noteq> None then Some (getGeneratedNameForNode node) else None
           | ExportDeclaration k c m \<Rightarrow>
               if m \<noteq> None then Some (getGeneratedNameForNode node) else None
           | _ \<Rightarrow> None))"

text \<open>\<^verbatim>\<open>getLocalNameTextForExternalImport\<close> (lines 1072 to 1075).\<close>

definition getLocalNameTextForExternalImport :: "statement \<Rightarrow> string option" where
  "getLocalNameTextForExternalImport node =
     (case getLocalNameForExternalImport node of
        Some n \<Rightarrow> Some (identifier_text n)
      | None \<Rightarrow> None)"

section \<open>The statement rewriter\<close>

text \<open>
  The visitors return the statements that replace the visited one (none for
  \<^verbatim>\<open>undefined\<close>) and the changed state. \<^verbatim>\<open>visitImportDeclaration\<close> (lines 488 to
  494) and \<^verbatim>\<open>visitImportEqualsDeclaration\<close> (lines 496 to 503) only hoist the local
  name; the name they hoist is never \<^verbatim>\<open>undefined\<close> (lemma
  \<open>hoisted_import_name_defined\<close>).
\<close>

definition visitImportDeclaration :: "statement \<Rightarrow> file_state \<Rightarrow> emit_context \<Rightarrow> emit_context" where
  "visitImportDeclaration node st cx =
     (case node of
        ImportDeclaration k c m \<Rightarrow>
          if c \<noteq> None \<and> contains_node (externalImports st) node
          then (case getLocalNameForExternalImport node of
                  Some n \<Rightarrow> hoistVariableDeclaration n cx
                | None \<Rightarrow> cx)
          else cx
      | _ \<Rightarrow> cx)"

definition visitImportEqualsDeclaration :: "statement \<Rightarrow> file_state \<Rightarrow> emit_context \<Rightarrow> emit_context" where
  "visitImportEqualsDeclaration node st cx =
     (if contains_node (externalImports st) node
      then (case getLocalNameForExternalImport node of
              Some n \<Rightarrow> hoistVariableDeclaration n cx
            | None \<Rightarrow> cx)
      else cx)"

text \<open>\<^verbatim>\<open>visitExportSpecifier\<close> (lines 515 to 525).\<close>

definition visitExportSpecifier ::
  "emit_resolver \<Rightarrow> export_specifier \<Rightarrow> file_state \<Rightarrow> statement option \<times> file_state" where
  "visitExportSpecifier rs specifier st =
     (let local = (case specifier_propertyName specifier of
                     Some p \<Rightarrow> p
                   | None \<Rightarrow> specifier_name specifier)
      in if getReferencedValueDeclaration rs local \<or> isValueAliasSpecifier rs specifier
         then (let st' = recordExportName (specifier_name specifier) st
               in (Some (createExportStatement st'
                           (IdentifierNode (specifier_name specifier)) (IdentifierNode local)),
                   st'))
         else (None, st))"

text \<open>
  \<^verbatim>\<open>visitExportDeclaration\<close> (lines 505 to 513): the specifiers are visited in
  order and the statements that are not \<^verbatim>\<open>undefined\<close> are kept. Reading the elements
  of a missing export clause throws.
\<close>

fun visitExportSpecifiers ::
  "emit_resolver \<Rightarrow> export_specifier list \<Rightarrow> file_state \<Rightarrow> statement list \<times> file_state" where
  "visitExportSpecifiers rs [] st = ([], st)"
| "visitExportSpecifiers rs (specifier # rest) st =
     (case visitExportSpecifier rs specifier st of
        (r, st1) \<Rightarrow>
          (case visitExportSpecifiers rs rest st1 of
             (results, st2) \<Rightarrow> ((case r of None \<Rightarrow> [] | Some x \<Rightarrow> [x]) @ results, st2)))"

definition visitExportDeclaration ::
  "emit_resolver \<Rightarrow> statement \<Rightarrow> file_state \<Rightarrow> transform_failure + (statement list \<times> file_state)" where
  "visitExportDeclaration rs node st =
     (case node of
        ExportDeclaration k exportClause moduleSpecifier \<Rightarrow>
          (case moduleSpecifier of
             None \<Rightarrow>
               (case exportClause of
                  None \<Rightarrow> Inl UndefinedDereference
                | Some elements \<Rightarrow> Inr (visitExportSpecifiers rs elements st))
           | Some m \<Rightarrow> Inr ([], st))
      | _ \<Rightarrow> Inr ([], st))"

text \<open>\<^verbatim>\<open>visitExportAssignment\<close> (lines 527 to 536).\<close>

definition visitExportAssignment :: "emit_resolver \<Rightarrow> file_state \<Rightarrow> statement \<Rightarrow> statement option" where
  "visitExportAssignment rs st node =
     (case node of
        ExportAssignment k isExportEquals e \<Rightarrow>
          if \<not> isExportEquals \<and> isValueAliasDeclaration rs node
          then Some (createExportStatement st (StringLiteral ''default'') e)
          else None
      | _ \<Rightarrow> None)"

text \<open>\<^verbatim>\<open>hoistBindingElement\<close> and its two callbacks (lines 1252 to 1271).\<close>

fun hoistBindingElement ::
  "binding_name \<Rightarrow> bool \<Rightarrow> file_state \<times> emit_context \<Rightarrow> file_state \<times> emit_context" where
  "hoistBindingElement (BindingIdentifier n) isExported (st, cx) =
     (if isExported then recordExportName n st else st, hoistVariableDeclaration n cx)"
| "hoistBindingElement (BindingPattern elements) isExported sc =
     fold (\<lambda>element. hoistBindingElement element isExported) elements sc"

text \<open>
  \<^verbatim>\<open>transformVariable\<close> (lines 564 to 582). The flattening of a binding pattern is
  the host's; its result is kept symbolic and the temporaries it may hoist are not
  modelled.
\<close>

definition transformVariable ::
  "binding_name \<times> expression option \<Rightarrow> bool \<Rightarrow> file_state \<times> emit_context
     \<Rightarrow> expression option \<times> file_state \<times> emit_context" where
  "transformVariable node isExported sc =
     (case hoistBindingElement (fst node) isExported sc of
        (st, cx) \<Rightarrow>
          (case snd node of
             None \<Rightarrow> (None, st, cx)
           | Some initializer \<Rightarrow>
               (case fst node of
                  BindingIdentifier n \<Rightarrow>
                    (Some (createAssignment (IdentifierNode n) initializer), st, cx)
                | BindingPattern elements \<Rightarrow>
                    (Some (FlattenedDestructuring (fst node) initializer), st, cx))))"

text \<open>\<^verbatim>\<open>visitVariableStatement\<close> (lines 544 to 556).\<close>

fun transformVariables ::
  "(binding_name \<times> expression option) list \<Rightarrow> bool \<Rightarrow> file_state \<times> emit_context
     \<Rightarrow> expression list \<times> file_state \<times> emit_context" where
  "transformVariables [] isExported (st, cx) = ([], st, cx)"
| "transformVariables (variable # rest) isExported sc =
     (case transformVariable variable isExported sc of
        (r, st1, cx1) \<Rightarrow>
          (case transformVariables rest isExported (st1, cx1) of
             (expressions, st2, cx2) \<Rightarrow>
               ((case r of None \<Rightarrow> [] | Some e \<Rightarrow> [e]) @ expressions, st2, cx2)))"

definition visitVariableStatement ::
  "statement \<Rightarrow> file_state \<Rightarrow> emit_context \<Rightarrow> statement list \<times> file_state \<times> emit_context" where
  "visitVariableStatement node st cx =
     (case node of
        VariableStatement mods declarations \<Rightarrow>
          (let isExported = hasModifier node ModifierFlags_Export
           in case transformVariables declarations isExported (st, cx) of
                (expressions, st', cx') \<Rightarrow>
                  (if expressions \<noteq> []
                   then [createStatement (inlineExpressions expressions)]
                   else [],
                   st', cx'))
      | _ \<Rightarrow> ([], st, cx))"

text \<open>
  \<^verbatim>\<open>visitFunctionDeclaration\<close> (lines 589 to 612). As in the source, the variable
  \<^verbatim>\<open>node\<close> is rebound to the rewritten declaration before the export is recorded and
  before the test for the default modifier.
\<close>

definition visitFunctionDeclaration ::
  "statement \<Rightarrow> file_state \<Rightarrow> emit_context \<Rightarrow> file_state \<times> emit_context" where
  "visitFunctionDeclaration node st cx =
     (case node of
        FunctionDeclaration k mods asteriskToken nm parameters body \<Rightarrow>
          if hasModifier node ModifierFlags_Export
          then (let declaredName = (case nm of Some n \<Rightarrow> n | None \<Rightarrow> getGeneratedNameForNode node);
                    node' = createFunctionDeclaration [] asteriskToken declaredName parameters body k;
                    st1 = recordExportedFunctionDeclaration node' st;
                    st2 = (if \<not> hasModifier node' ModifierFlags_Default
                           then recordExportName declaredName st1 else st1)
                in (st2, hoistFunctionDeclaration node' cx))
          else (st, hoistFunctionDeclaration node cx)
      | _ \<Rightarrow> (st, cx))"

text \<open>\<^verbatim>\<open>visitClassDeclaration\<close> (lines 619 to 652).\<close>

definition visitClassDeclaration ::
  "statement \<Rightarrow> file_state \<Rightarrow> emit_context \<Rightarrow> statement list \<times> file_state \<times> emit_context" where
  "visitClassDeclaration node st cx =
     (case node of
        ClassDeclaration k mods nm members \<Rightarrow>
          (let declaredName = getDeclarationName node;
               cx' = hoistVariableDeclaration declaredName cx;
               assignment = createStatement
                 (createAssignment (IdentifierNode declaredName) (ClassExpression nm members))
           in if hasModifier node ModifierFlags_Export
              then (let st' = (if \<not> hasModifier node ModifierFlags_Default
                               then recordExportName declaredName st else st)
                    in ([assignment, createDeclarationExport st' node], st', cx'))
              else ([assignment], st, cx'))
      | _ \<Rightarrow> ([], st, cx))"

text \<open>
  \<^verbatim>\<open>visitNestedNode\<close> (lines 430 to 486) and \<^verbatim>\<open>visitSourceElement\<close> (lines 411 to
  428). The loop, switch, try, labeled, with and block statements, whose visitors walk
  nested statements with the host's generic visitor, are outside the modelled fragment:
  this model has no constructor for most of them and answers
  \<open>OutsideModelledFragment\<close> for the two it has. Every other kind is returned unchanged,
  as by the \<^verbatim>\<open>default\<close> branch.
\<close>

definition visitNestedNode ::
  "statement \<Rightarrow> file_state \<Rightarrow> emit_context
     \<Rightarrow> transform_failure + (statement list \<times> file_state \<times> emit_context)" where
  "visitNestedNode node st cx =
     (case node of
        VariableStatement mods ds \<Rightarrow> Inr (visitVariableStatement node st cx)
      | FunctionDeclaration k mods a n ps b \<Rightarrow>
          (case visitFunctionDeclaration node st cx of (st', cx') \<Rightarrow> Inr ([], st', cx'))
      | ClassDeclaration k mods n m \<Rightarrow> Inr (visitClassDeclaration node st cx)
      | ForInStatement ds e b \<Rightarrow> Inl OutsideModelledFragment
      | Block ss multiLine flags \<Rightarrow> Inl OutsideModelledFragment
      | _ \<Rightarrow> Inr ([node], st, cx))"

definition visitSourceElement ::
  "emit_resolver \<Rightarrow> statement \<Rightarrow> file_state \<Rightarrow> emit_context
     \<Rightarrow> transform_failure + (statement list \<times> file_state \<times> emit_context)" where
  "visitSourceElement rs node st cx =
     (case node of
        ImportDeclaration k c m \<Rightarrow> Inr ([], st, visitImportDeclaration node st cx)
      | ImportEqualsDeclaration k n m \<Rightarrow> Inr ([], st, visitImportEqualsDeclaration node st cx)
      | ExportDeclaration k c m \<Rightarrow>
          (case visitExportDeclaration rs node st of
             Inl e \<Rightarrow> Inl e
           | Inr (results, st') \<Rightarrow> Inr (results, st', cx))
      | ExportAssignment k b e \<Rightarrow>
          Inr ((case visitExportAssignment rs st node of None \<Rightarrow> [] | Some x \<Rightarrow> [x]), st, cx)
      | _ \<Rightarrow> visitNestedNode node st cx)"

text \<open>
  Modelled from the spec: \<^verbatim>\<open>visitNodes(nodes, visitSourceElement, isStatement,
  start)\<close> of the host's visitor, which rewrites the statements from the start offset on
  in source order and concatenates the results.
\<close>

fun visitSourceElements ::
  "emit_resolver \<Rightarrow> statement list \<Rightarrow> file_state \<Rightarrow> emit_context
     \<Rightarrow> transform_failure + (statement list \<times> file_state \<times> emit_context)" where
  "visitSourceElements rs [] st cx = Inr ([], st, cx)"
| "visitSourceElements rs (node # rest) st cx =
     (case visitSourceElement rs node st cx of
        Inl e \<Rightarrow> Inl e
      | Inr (visited, st1, cx1) \<Rightarrow>
          (case visitSourceElements rs rest st1 cx1 of
             Inl e \<Rightarrow> Inl e
           | Inr (results, st2, cx2) \<Rightarrow> Inr (visited @ results, st2, cx2)))"

definition visitNodes ::
  "emit_resolver \<Rightarrow> statement list \<Rightarrow> nat \<Rightarrow> file_state \<Rightarrow> emit_context
     \<Rightarrow> transform_failure + (statement list \<times> file_state \<times> emit_context)" where
  "visitNodes rs nodes start st cx = visitSourceElements rs (drop start nodes) st cx"

section \<open>The star-export helper\<close>

text \<open>
  \<^verbatim>\<open>addExportStarFunction\<close> (lines 1098 to 1155): appends the helper's declaration
  to the statements and returns them with the helper's name.
\<close>

definition addExportStarFunction ::
  "file_state \<Rightarrow> statement list \<Rightarrow> ident option \<Rightarrow> emit_context
     \<Rightarrow> statement list \<times> ident \<times> emit_context" where
  "addExportStarFunction st stmts localNames cx =
     (case createUniqueName ''exportStar'' cx of
        (exportStarFunction, cx') \<Rightarrow>
          (let m = Identifier ''m'';
               n = Identifier ''n'';
               exports = Identifier ''exports'';
               condition0 = createStrictInequality (IdentifierNode n) (StringLiteral ''default'');
               condition =
                 (case localNames of
                    Some names \<Rightarrow>
                      createLogicalAnd condition0
                        (createLogicalNot
                           (createHasOwnProperty (IdentifierNode names) (IdentifierNode n)))
                  | None \<Rightarrow> condition0)
           in (stmts @
               [createFunctionDeclaration [] False exportStarFunction [m]
                  (Block
                     [VariableStatement []
                        [(BindingIdentifier exports, Some (ObjectLiteralExpression [] False))],
                      ForInStatement [(BindingIdentifier n, None)] (IdentifierNode m)
                        (Block
                           [IfStatement condition
                              (createStatement
                                 (createAssignment
                                    (ElementAccessExpression (IdentifierNode exports) (IdentifierNode n))
                                    (ElementAccessExpression (IdentifierNode m) (IdentifierNode n))))]
                           False []),
                      createStatement
                        (createCall (identifier_node (exportFunctionForFile st))
                           [IdentifierNode exports])]
                     False [])
                  0],
               exportStarFunction, cx')))"

text \<open>
  \<^verbatim>\<open>addExportStarIfNeeded\<close> (lines 240 to 313). \<open>exportedNamesOfClause\<close> is the inner
  loop over the elements of one re-export clause, \<open>exportedNamesOfImports\<close> the loop over
  the external imports; an export specifier always has a \<^verbatim>\<open>name\<close>, so
  \<^verbatim>\<open>element.name || element.propertyName\<close> is its name. Iterating over
  \<^verbatim>\<open>externalImports\<close> while it is \<^verbatim>\<open>undefined\<close> throws.
\<close>

definition hasExportDeclarationWithExportClause :: "statement list \<Rightarrow> bool" where
  "hasExportDeclarationWithExportClause imports =
     list_ex (\<lambda>externalImport.
        case externalImport of ExportDeclaration k c m \<Rightarrow> c \<noteq> None | _ \<Rightarrow> False) imports"

definition exportedNamesOfClause :: "export_specifier list \<Rightarrow> (property_name \<times> expression) list" where
  "exportedNamesOfClause elements =
     map (\<lambda>element. (StringLiteralName (identifier_text (specifier_name element)),
                      BooleanLiteral True)) elements"

definition exportedNamesOfImports :: "statement list \<Rightarrow> (property_name \<times> expression) list" where
  "exportedNamesOfImports imports =
     concat (map (\<lambda>externalImport.
        case externalImport of
          ExportDeclaration k (Some elements) m \<Rightarrow> exportedNamesOfClause elements
        | _ \<Rightarrow> []) imports)"

definition addExportStarIfNeeded ::
  "file_state \<Rightarrow> statement list \<Rightarrow> emit_context
     \<Rightarrow> transform_failure + (statement list \<times> ident \<times> emit_context)" where
  "addExportStarIfNeeded st stmts cx =
     (case externalImports st of
        None \<Rightarrow> Inl UndefinedDereference
      | Some imports \<Rightarrow>
          if exportedLocalNames st = None \<and> isEmpty (exportSpecifiers st)
             \<and> \<not> hasExportDeclarationWithExportClause imports
          then Inr (addExportStarFunction st stmts None cx)
          else
            (let exportedNames =
                   map (\<lambda>exportedLocalName.
                          (StringLiteralName (identifier_text exportedLocalName), BooleanLiteral True))
                     (case exportedLocalNames st of None \<Rightarrow> [] | Some ns \<Rightarrow> ns)
                   @ exportedNamesOfImports imports
             in case createUniqueName ''exportedNames'' cx of
                  (exportedNamesStorageRef, cx') \<Rightarrow>
                    Inr (addExportStarFunction st
                           (stmts @
                            [VariableStatement []
                               [(BindingIdentifier exportedNamesStorageRef,
                                 Some (ObjectLiteralExpression exportedNames False))]])
                           (Some exportedNamesStorageRef) cx')))"

section \<open>Setters and the registration call\<close>

text \<open>
  Modelled from the spec: \<^verbatim>\<open>forEach(array, callback)\<close> of the host's core
  utilities returns the first truthy result of the callback; for
  \<^verbatim>\<open>getLocalNameTextForExternalImport\<close> that is the first local name text that is
  not empty. The source then falls back to the empty string.
\<close>

fun firstLocalNameText :: "statement list \<Rightarrow> string" where
  "firstLocalNameText [] = []"
| "firstLocalNameText (entry # rest) =
     (case getLocalNameTextForExternalImport entry of
        Some txt \<Rightarrow> if txt \<noteq> [] then txt else firstLocalNameText rest
      | None \<Rightarrow> firstLocalNameText rest)"

text \<open>
  The body of the inner loop of \<^verbatim>\<open>generateSetters\<close> (lines 325 to 396): the
  statements one entry adds to its group's setter.
\<close>

definition setterProperties :: "ident \<Rightarrow> export_specifier list \<Rightarrow> (property_name \<times> expression) list" where
  "setterProperties parameterName elements =
     map (\<lambda>e. (StringLiteralName (identifier_text (specifier_name e)),
                ElementAccessExpression (IdentifierNode parameterName)
                  (StringLiteral
                     (identifier_text
                        (case specifier_propertyName e of
                           Some p \<Rightarrow> p
                         | None \<Rightarrow> specifier_name e)))))
       elements"

definition setterStatementsOfEntry ::
  "file_state \<Rightarrow> ident \<Rightarrow> ident \<Rightarrow> statement \<Rightarrow> transform_failure + statement list" where
  "setterStatementsOfEntry st exportStarFunction parameterName entry =
     (let importVariableName = getLocalNameForExternalImport entry;
          saveImport =
            (case importVariableName of
               None \<Rightarrow> Inl DebugAssertionFailed
             | Some v \<Rightarrow>
                 Inr [createStatement
                        (createAssignment (IdentifierNode v) (IdentifierNode parameterName))])
      in case entry of
           ImportDeclaration k c m \<Rightarrow> if c = None then Inr [] else saveImport
         | ImportEqualsDeclaration k n m \<Rightarrow> saveImport
         | ExportDeclaration k exportClause m \<Rightarrow>
             (case importVariableName of
                None \<Rightarrow> Inl DebugAssertionFailed
              | Some v \<Rightarrow>
                  (case exportClause of
                     Some elements \<Rightarrow>
                       Inr [createStatement
                              (createCall (identifier_node (exportFunctionForFile st))
                                 [ObjectLiteralExpression
                                    (setterProperties parameterName elements) False])]
                   | None \<Rightarrow>
                       Inr [createStatement
                              (createCall (IdentifierNode exportStarFunction)
                                 [IdentifierNode parameterName])]))
         | _ \<Rightarrow> Inr [])"

fun setterStatements ::
  "file_state \<Rightarrow> ident \<Rightarrow> ident \<Rightarrow> statement list \<Rightarrow> transform_failure + statement list" where
  "setterStatements st exportStarFunction parameterName [] = Inr []"
| "setterStatements st exportStarFunction parameterName (entry # rest) =
     (case setterStatementsOfEntry st exportStarFunction parameterName entry of
        Inl e \<Rightarrow> Inl e
      | Inr added \<Rightarrow>
          (case setterStatements st exportStarFunction parameterName rest of
             Inl e \<Rightarrow> Inl e
           | Inr others \<Rightarrow> Inr (added @ others)))"

text \<open>
  \<^verbatim>\<open>generateSetters\<close> (lines 319 to 409): \<open>generateSetterList\<close> is the outer loop
  over the dependency groups, one setter function per group.
\<close>

fun generateSetterList ::
  "file_state \<Rightarrow> ident \<Rightarrow> dependency_group list \<Rightarrow> emit_context
     \<Rightarrow> transform_failure + (expression list \<times> emit_context)" where
  "generateSetterList st exportStarFunction [] cx = Inr ([], cx)"
| "generateSetterList st exportStarFunction (grp # rest) cx =
     (case createUniqueName (firstLocalNameText (group_externalImports grp)) cx of
        (parameterName, cx1) \<Rightarrow>
          (case setterStatements st exportStarFunction parameterName (group_externalImports grp) of
             Inl e \<Rightarrow> Inl e
           | Inr body \<Rightarrow>
               (case generateSetterList st exportStarFunction rest cx1 of
                  Inl e \<Rightarrow> Inl e
                | Inr (setters, cx2) \<Rightarrow>
                    Inr (FunctionExpression False None [parameterName] (Block body False [])
                           # setters,
                         cx2))))"

definition generateSetters ::
  "file_state \<Rightarrow> ident \<Rightarrow> dependency_group list \<Rightarrow> emit_context
     \<Rightarrow> transform_failure + (expression \<times> emit_context)" where
  "generateSetters st exportStarFunction dependencyGroups cx =
     (case generateSetterList st exportStarFunction dependencyGroups cx of
        Inl e \<Rightarrow> Inl e
      | Inr (setters, cx') \<Rightarrow> Inr (ArrayLiteralExpression setters, cx'))"

text \<open>
  \<^verbatim>\<open>addSystemModuleBody\<close> (lines 148 to 238). The \<^verbatim>\<open>execute\<close> function is built
  with the source file node in the position of the asterisk token, as the source has it.
\<close>

definition addSystemModuleBody ::
  "emit_resolver \<Rightarrow> statement list \<Rightarrow> source_file \<Rightarrow> dependency_group list \<Rightarrow> nat
     \<Rightarrow> file_state \<Rightarrow> emit_context
     \<Rightarrow> transform_failure + (statement list \<times> file_state \<times> emit_context)" where
  "addSystemModuleBody rs stmts node dependencyGroups statementOffset st cx =
     (case visitNodes rs (statements node) statementOffset st (startLexicalEnvironment cx) of
        Inl e \<Rightarrow> Inl e
      | Inr (executeStatements, st1, cx1) \<Rightarrow>
          (case endLexicalEnvironment cx1 of
             (hoisted, cx2) \<Rightarrow>
               (let stmts1 = stmts @ hoisted;
                    stmts2 = stmts1 @ (case exportedFunctionDeclarations st1 of
                                         None \<Rightarrow> []
                                       | Some ds \<Rightarrow> ds)
                in case addExportStarIfNeeded st1 stmts2 cx2 of
                     Inl e \<Rightarrow> Inl e
                   | Inr (stmts3, exportStarFunction, cx3) \<Rightarrow>
                       (case generateSetters st1 exportStarFunction dependencyGroups cx3 of
                          Inl e \<Rightarrow> Inl e
                        | Inr (setters, cx4) \<Rightarrow>
                            Inr (stmts3 @
                                 [ReturnStatement
                                    (ObjectLiteralExpression
                                       [(IdentifierName ''setters'', setters),
                                        (IdentifierName ''execute'',
                                         FunctionExpression True None []
                                           (Block executeStatements False []))]
                                       True)],
                                 st1, cx4)))))"

text \<open>
  The statement \<^verbatim>\<open>var __moduleName = context_1 && context_1.id;\<close> (lines 94 to
  107).
\<close>

definition moduleNameDeclaration :: "file_state \<Rightarrow> statement" where
  "moduleNameDeclaration st =
     VariableStatement []
       [(BindingIdentifier (Identifier ''__moduleName''),
         Some (createLogicalAnd (identifier_node (contextObjectForFile st))
                 (PropertyAccessExpression (identifier_node (contextObjectForFile st)) ''id'')))]"

text \<open>\<^verbatim>\<open>updateSourceFile\<close> (lines 1273 to 1277).\<close>

definition updateSourceFile :: "source_file \<Rightarrow> statement list \<Rightarrow> source_file" where
  "updateSourceFile node stmts = node\<lparr>statements := stmts\<rparr>"

text \<open>
  \<^verbatim>\<open>transformSystemModuleWorker\<close> (lines 63 to 139). A module name is present when
  \<^verbatim>\<open>node.moduleName\<close> is truthy: a string that is not empty.
\<close>

definition transformSystemModuleWorker ::
  "host \<Rightarrow> source_file \<Rightarrow> file_state \<Rightarrow> emit_context
     \<Rightarrow> transform_failure + (source_file \<times> file_state \<times> emit_context)" where
  "transformSystemModuleWorker h node st cx =
     (if exportFunctionForFile st \<noteq> None then Inl DebugAssertionFailed
      else
        (let info = collectExternalModuleInfo h node (emitResolver h);
             st1 = st\<lparr>externalImports := Some (info_externalImports info),
                      exportSpecifiers := Some (info_exportSpecifiers info),
                      exportEquals := info_exportEquals info,
                      hasExportStars := Some (info_hasExportStars info)\<rparr>
         in case createUniqueName ''exports'' cx of
              (exportFunction, cx1) \<Rightarrow>
                (case createUniqueName ''context'' cx1 of
                   (contextObject, cx2) \<Rightarrow>
                     (let st2 = st1\<lparr>exportFunctionForFile := Some exportFunction,
                                    contextObjectForFile := Some contextObject\<rparr>
                      in case collectDependencyGroups st2 (info_externalImports info) of
                           Inl e \<Rightarrow> Inl e
                         | Inr dependencyGroups \<Rightarrow>
                             (case addPrologueDirectives h (statements node) of
                                (prologue, statementOffset) \<Rightarrow>
                                  (case addSystemModuleBody (emitResolver h)
                                          (prologue @ [moduleNameDeclaration st2])
                                          node dependencyGroups statementOffset st2 cx2 of
                                     Inl e \<Rightarrow> Inl e
                                   | Inr (body, st3, cx3) \<Rightarrow>
                                       Inr (updateSourceFile node
                                              [createStatement
                                                 (createCall
                                                    (PropertyAccessExpression
                                                       (IdentifierNode (Identifier ''System''))
                                                       ''register'')
                                                    [(case moduleName node of
                                                        Some nm \<Rightarrow>
                                                          if nm \<noteq> [] then StringLiteral nm
                                                          else MissingExpression
                                                      | None \<Rightarrow> MissingExpression),
                                                     ArrayLiteralExpression
                                                       (map getNameOfDependencyGroup dependencyGroups),
                                                     FunctionExpression False None
                                                       [exportFunction, contextObject]
                                                       (Block body True [EmitEmitHelpers])])],
                                            st3, cx3)))))))"

text \<open>
  Modelled from the spec: \<^verbatim>\<open>isExternalModule(file)\<close> of the host's utilities, which
  holds of a file with an external module indicator.
\<close>

definition isExternalModule :: "source_file \<Rightarrow> bool" where
  "isExternalModule node = externalModuleIndicator node"

text \<open>
  \<^verbatim>\<open>transformSourceFile\<close> (lines 41 to 61). An exception of the worker leaves the
  function before the per-file variables are reset.
\<close>

definition transformSourceFile ::
  "host \<Rightarrow> source_file \<Rightarrow> file_state \<Rightarrow> emit_context
     \<Rightarrow> transform_failure + (source_file \<times> file_state \<times> emit_context)" where
  "transformSourceFile h node st cx =
     (if isExternalModule node \<or> isolatedModules (compilerOptions h)
      then (case transformSystemModuleWorker h node (st\<lparr>currentSourceFile := Some node\<rparr>) cx of
              Inl e \<Rightarrow> Inl e
            | Inr (updated, st', cx') \<Rightarrow>
                Inr (updated,
                     st'\<lparr>currentSourceFile := None,
                        externalImports := None,
                        exportSpecifiers := None,
                        exportEquals := None,
                        hasExportStars := Some False,
                        exportFunctionForFile := None,
                        contextObjectForFile := None,
                        exportedLocalNames := None,
                        exportedFunctionDeclarations := None\<rparr>,
                     cx'))
      else Inr (node, st, cx))"

text \<open>
  The state of a transformer that has not yet seen a file: every variable of lines 29 to
  37 is \<^verbatim>\<open>undefined\<close>. After a file, \<^verbatim>\<open>hasExportStars\<close> is \<^verbatim>\<open>false\<close> instead.
\<close>

definition initial_state :: file_state where
  "initial_state =
     \<lparr>currentSourceFile = None, externalImports = None, exportSpecifiers = None,
      exportEquals = None, hasExportStars = None, exportFunctionForFile = None,
      contextObjectForFile = None, exportedLocalNames = None,
      exportedFunctionDeclarations = None\<rparr>"

definition cleared_state :: file_state where
  "cleared_state = initial_state\<lparr>hasExportStars := Some False\<rparr>"

definition initial_context :: emit_context where
  "initial_context =
     \<lparr>hoistedVariableDeclarations = [], hoistedFunctionDeclarations = [],
      lexicalEnvironmentStack = [], uniqueNameCount = 1\<rparr>"

section \<open>A reference semantics for the generated JavaScript\<close>

text \<open>
  The claims about what lowered code does at run time are stated against a small
  interpreter for the JavaScript fragment the transformer generates. Numbers are
  mathematical integers (the values JavaScript represents exactly); an object is the
  list of its enumerable own properties in enumeration order; the loader's exporter
  callback is the value \<open>JSExporter\<close>: a call of it is recorded with its arguments and
  returns its last argument (the source documents it as
  \<^verbatim>\<open><T>(name: string, value: T) => T\<close>). Constructs outside the fragment
  evaluate to \<open>Unsupported\<close>.
\<close>

datatype js_value =
    JSUndefined
  | JSBoolean bool
  | JSNumber int
  | JSString string
  | JSObject "(string \<times> js_value) list"
  | JSExporter

datatype js_error = ReferenceError | TypeError | Unsupported

record runtime =
  variables :: "ident \<Rightarrow> js_value option"
  exporterCalls :: "js_value list list"

fun truthy :: "js_value \<Rightarrow> bool" where
  "truthy JSUndefined = False"
| "truthy (JSBoolean b) = b"
| "truthy (JSNumber n) = (n \<noteq> 0)"
| "truthy (JSString s) = (s \<noteq> [])"
| "truthy (JSObject ps) = True"
| "truthy JSExporter = True"

definition assign :: "ident \<Rightarrow> js_value \<Rightarrow> runtime \<Rightarrow> runtime" where
  "assign x v rt = rt\<lparr>variables := (variables rt)(x \<mapsto> v)\<rparr>"

fun object_put :: "string \<Rightarrow> js_value \<Rightarrow> (string \<times> js_value) list \<Rightarrow> (string \<times> js_value) list" where
  "object_put k v [] = [(k, v)]"
| "object_put k v ((k', v') # ps) = (if k = k' then (k, v) # ps else (k', v') # object_put k v ps)"

definition object_get :: "(string \<times> js_value) list \<Rightarrow> string \<Rightarrow> js_value" where
  "object_get ps k = (case map_of ps k of None \<Rightarrow> JSUndefined | Some v \<Rightarrow> v)"

definition update_variable ::
  "unary_operator \<Rightarrow> bool \<Rightarrow> expression \<Rightarrow> runtime \<Rightarrow> js_error + (js_value \<times> runtime)" where
  "update_variable operator is_prefix operand rt =
     (case operand of
        IdentifierNode x \<Rightarrow>
          (case variables rt x of
             None \<Rightarrow> Inl ReferenceError
           | Some (JSNumber n) \<Rightarrow>
               (let n' = (if operator = PlusPlusToken then n + 1 else n - 1)
                in Inr (JSNumber (if is_prefix then n' else n), assign x (JSNumber n') rt))
           | Some _ \<Rightarrow> Inl Unsupported)
      | _ \<Rightarrow> Inl Unsupported)"

definition store_element ::
  "ident \<Rightarrow> js_value \<Rightarrow> js_value \<Rightarrow> runtime \<Rightarrow> js_error + (js_value \<times> runtime)" where
  "store_element obj k v rt =
     (case (variables rt obj, k) of
        (None, _) \<Rightarrow> Inl ReferenceError
      | (Some (JSObject ps), JSString key) \<Rightarrow> Inr (v, assign obj (JSObject (object_put key v ps)) rt)
      | _ \<Rightarrow> Inl Unsupported)"

definition read_element :: "js_value \<Rightarrow> js_value \<Rightarrow> js_error + js_value" where
  "read_element target k =
     (case (target, k) of
        (JSObject ps, JSString key) \<Rightarrow> Inr (object_get ps key)
      | (JSUndefined, _) \<Rightarrow> Inl TypeError
      | _ \<Rightarrow> Inl Unsupported)"

definition has_own_property :: "js_value \<Rightarrow> js_value \<Rightarrow> js_error + js_value" where
  "has_own_property target k =
     (case (target, k) of
        (JSObject ps, JSString key) \<Rightarrow> Inr (JSBoolean (key \<in> set (map fst ps)))
      | (JSUndefined, _) \<Rightarrow> Inl TypeError
      | _ \<Rightarrow> Inl Unsupported)"

definition binary_value :: "binary_operator \<Rightarrow> js_value \<Rightarrow> js_value \<Rightarrow> js_error + js_value" where
  "binary_value operator a b =
     (case (operator, a, b) of
        (PlusToken, JSNumber m, JSNumber n) \<Rightarrow> Inr (JSNumber (m + n))
      | (MinusToken, JSNumber m, JSNumber n) \<Rightarrow> Inr (JSNumber (m - n))
      | (ExclamationEqualsEqualsToken, JSString s, JSString t) \<Rightarrow> Inr (JSBoolean (s \<noteq> t))
      | (ExclamationEqualsEqualsToken, JSNumber m, JSNumber n) \<Rightarrow> Inr (JSBoolean (m \<noteq> n))
      | _ \<Rightarrow> Inl Unsupported)"

definition property_key :: "property_name \<Rightarrow> string" where
  "property_key p = (case p of IdentifierName s \<Rightarrow> s | StringLiteralName s \<Rightarrow> s)"

fun eval_expression :: "expression \<Rightarrow> runtime \<Rightarrow> js_error + (js_value \<times> runtime)"
and eval_arguments :: "expression list \<Rightarrow> runtime \<Rightarrow> js_error + (js_value list \<times> runtime)"
and eval_properties ::
  "(property_name \<times> expression) list \<Rightarrow> (string \<times> js_value) list \<Rightarrow> runtime
     \<Rightarrow> js_error + ((string \<times> js_value) list \<times> runtime)"
where
  "eval_expression (IdentifierNode x) rt =
     (case variables rt x of None \<Rightarrow> Inl ReferenceError | Some v \<Rightarrow> Inr (v, rt))"
| "eval_expression (StringLiteral s) rt = Inr (JSString s, rt)"
| "eval_expression (NumericLiteral n) rt = Inr (JSNumber n, rt)"
| "eval_expression (BooleanLiteral b) rt = Inr (JSBoolean b, rt)"
| "eval_expression (PrefixUnaryExpression operator operand) rt =
     (if operator = ExclamationToken
      then (case eval_expression operand rt of
              Inl e \<Rightarrow> Inl e
            | Inr (v, rt') \<Rightarrow> Inr (JSBoolean (\<not> truthy v), rt'))
      else update_variable operator True operand rt)"
| "eval_expression (PostfixUnaryExpression operator operand) rt =
     (if operator = ExclamationToken then Inl Unsupported
      else update_variable operator False operand rt)"
| "eval_expression (BinaryExpression l operator r) rt =
     (case operator of
        EqualsToken \<Rightarrow>
          (case l of
             IdentifierNode x \<Rightarrow>
               (case eval_expression r rt of
                  Inl e \<Rightarrow> Inl e
                | Inr (v, rt') \<Rightarrow> Inr (v, assign x v rt'))
           | ElementAccessExpression target key \<Rightarrow>
               (case target of
                  IdentifierNode obj \<Rightarrow>
                    (case eval_expression key rt of
                       Inl e \<Rightarrow> Inl e
                     | Inr (k, rt1) \<Rightarrow>
                         (case eval_expression r rt1 of
                            Inl e \<Rightarrow> Inl e
                          | Inr (v, rt2) \<Rightarrow> store_element obj k v rt2))
                | _ \<Rightarrow> Inl Unsupported)
           | _ \<Rightarrow> Inl Unsupported)
      | AmpersandAmpersandToken \<Rightarrow>
          (case eval_expression l rt of
             Inl e \<Rightarrow> Inl e
           | Inr (v, rt') \<Rightarrow> if truthy v then eval_expression r rt' else Inr (v, rt'))
      | CommaToken \<Rightarrow>
          (case eval_expression l rt of
             Inl e \<Rightarrow> Inl e
           | Inr (v, rt') \<Rightarrow> eval_expression r rt')
      | _ \<Rightarrow>
          (case eval_expression l rt of
             Inl e \<Rightarrow> Inl e
           | Inr (a, rt1) \<Rightarrow>
               (case eval_expression r rt1 of
                  Inl e \<Rightarrow> Inl e
                | Inr (b, rt2) \<Rightarrow>
                    (case binary_value operator a b of
                       Inl e \<Rightarrow> Inl e
                     | Inr v \<Rightarrow> Inr (v, rt2)))))"
| "eval_expression (CallExpression callee args) rt =
     (case eval_expression callee rt of
        Inl e \<Rightarrow> Inl e
      | Inr (f, rt1) \<Rightarrow>
          (case eval_arguments args rt1 of
             Inl e \<Rightarrow> Inl e
           | Inr (vs, rt2) \<Rightarrow>
               (case f of
                  JSExporter \<Rightarrow>
                    Inr (if vs = [] then JSUndefined else last vs,
                         rt2\<lparr>exporterCalls := exporterCalls rt2 @ [vs]\<rparr>)
                | _ \<Rightarrow> Inl TypeError)))"
| "eval_expression (PropertyAccessExpression target nm) rt =
     (case eval_expression target rt of
        Inl e \<Rightarrow> Inl e
      | Inr (t, rt1) \<Rightarrow>
          (case read_element t (JSString nm) of Inl e \<Rightarrow> Inl e | Inr v \<Rightarrow> Inr (v, rt1)))"
| "eval_expression (ElementAccessExpression target key) rt =
     (case eval_expression target rt of
        Inl e \<Rightarrow> Inl e
      | Inr (t, rt1) \<Rightarrow>
          (case eval_expression key rt1 of
             Inl e \<Rightarrow> Inl e
           | Inr (k, rt2) \<Rightarrow>
               (case read_element t k of Inl e \<Rightarrow> Inl e | Inr v \<Rightarrow> Inr (v, rt2))))"
| "eval_expression (HasOwnPropertyCall target key) rt =
     (case eval_expression target rt of
        Inl e \<Rightarrow> Inl e
      | Inr (t, rt1) \<Rightarrow>
          (case eval_expression key rt1 of
             Inl e \<Rightarrow> Inl e
           | Inr (k, rt2) \<Rightarrow>
               (case has_own_property t k of Inl e \<Rightarrow> Inl e | Inr v \<Rightarrow> Inr (v, rt2))))"
| "eval_expression (ObjectLiteralExpression ps multiLine) rt =
     (case eval_properties ps [] rt of
        Inl e \<Rightarrow> Inl e
      | Inr (obj, rt') \<Rightarrow> Inr (JSObject obj, rt'))"
| "eval_expression (ArrayLiteralExpression es) rt = Inl Unsupported"
| "eval_expression (FunctionExpression a n ps b) rt = Inl Unsupported"
| "eval_expression (ClassExpression n k) rt = Inl Unsupported"
| "eval_expression (FlattenedDestructuring b e) rt = Inl Unsupported"
| "eval_expression (OtherExpression k) rt = Inl Unsupported"
| "eval_expression MissingExpression rt = Inl Unsupported"
| "eval_arguments [] rt = Inr ([], rt)"
| "eval_arguments (a # as) rt =
     (case eval_expression a rt of
        Inl e \<Rightarrow> Inl e
      | Inr (v, rt1) \<Rightarrow>
          (case eval_arguments as rt1 of
             Inl e \<Rightarrow> Inl e
           | Inr (vs, rt2) \<Rightarrow> Inr (v # vs, rt2)))"
| "eval_properties [] acc rt = Inr (acc, rt)"
| "eval_properties (p # ps) acc rt =
     (case eval_expression (snd p) rt of
        Inl e \<Rightarrow> Inl e
      | Inr (v, rt1) \<Rightarrow> eval_properties ps (object_put (property_key (fst p)) v acc) rt1)"


fun exec_declarations ::
  "(binding_name \<times> expression option) list \<Rightarrow> runtime \<Rightarrow> js_error + runtime" where
  "exec_declarations [] rt = Inr rt"
| "exec_declarations (d # ds) rt =
     (case d of
        (BindingIdentifier x, None) \<Rightarrow>
          exec_declarations ds
            (case variables rt x of None \<Rightarrow> assign x JSUndefined rt | Some v \<Rightarrow> rt)
      | (BindingIdentifier x, Some initializer) \<Rightarrow>
          (case eval_expression initializer rt of
             Inl e \<Rightarrow> Inl e
           | Inr (v, rt') \<Rightarrow> exec_declarations ds (assign x v rt'))
      | _ \<Rightarrow> Inl Unsupported)"

fun exec_statement :: "statement \<Rightarrow> runtime \<Rightarrow> js_error + runtime"
and exec_statements :: "statement list \<Rightarrow> runtime \<Rightarrow> js_error + runtime"
and exec_for_in :: "ident \<Rightarrow> string list \<Rightarrow> statement \<Rightarrow> runtime \<Rightarrow> js_error + runtime"
where
  "exec_statement (VariableStatement mods ds) rt = exec_declarations ds rt"
| "exec_statement (ExpressionStatement e) rt =
     (case eval_expression e rt of Inl err \<Rightarrow> Inl err | Inr (v, rt') \<Rightarrow> Inr rt')"
| "exec_statement (IfStatement c thenStatement) rt =
     (case eval_expression c rt of
        Inl err \<Rightarrow> Inl err
      | Inr (v, rt') \<Rightarrow> if truthy v then exec_statement thenStatement rt' else Inr rt')"
| "exec_statement (ForInStatement ds e body) rt =
     (case ds of
        [(BindingIdentifier n, None)] \<Rightarrow>
          (case eval_expression e rt of
             Inl err \<Rightarrow> Inl err
           | Inr (v, rt') \<Rightarrow>
               (case v of
                  JSObject ps \<Rightarrow> exec_for_in n (map fst ps) body rt'
                | JSUndefined \<Rightarrow> Inr rt'
                | _ \<Rightarrow> Inl Unsupported))
      | _ \<Rightarrow> Inl Unsupported)"
| "exec_statement (Block ss multiLine flags) rt = exec_statements ss rt"
| "exec_statement (ImportDeclaration k c m) rt = Inl Unsupported"
| "exec_statement (ImportEqualsDeclaration k n m) rt = Inl Unsupported"
| "exec_statement (ExportDeclaration k c m) rt = Inl Unsupported"
| "exec_statement (ExportAssignment k b e) rt = Inl Unsupported"
| "exec_statement (FunctionDeclaration k mods a n ps b) rt = Inl Unsupported"
| "exec_statement (ClassDeclaration k mods n m) rt = Inl Unsupported"
| "exec_statement (ReturnStatement e) rt = Inl Unsupported"
| "exec_statement (OtherStatement k) rt = Inl Unsupported"
| "exec_statements [] rt = Inr rt"
| "exec_statements (s # ss) rt =
     (case exec_statement s rt of Inl err \<Rightarrow> Inl err | Inr rt' \<Rightarrow> exec_statements ss rt')"
| "exec_for_in n [] body rt = Inr rt"
| "exec_for_in n (k # ks) body rt =
     (case exec_statement body (assign n (JSString k) rt) of
        Inl err \<Rightarrow> Inl err
      | Inr rt' \<Rightarrow> exec_for_in n ks body rt')"

fun bind_parameters :: "ident list \<Rightarrow> js_value list \<Rightarrow> runtime \<Rightarrow> runtime" where
  "bind_parameters [] vs rt = rt"
| "bind_parameters (p # ps) [] rt = bind_parameters ps [] (assign p JSUndefined rt)"
| "bind_parameters (p # ps) (v # vs) rt = bind_parameters ps vs (assign p v rt)"

definition call_function :: "statement \<Rightarrow> js_value list \<Rightarrow> runtime \<Rightarrow> js_error + runtime" where
  "call_function decl args rt =
     (case decl of
        FunctionDeclaration k mods a n ps body \<Rightarrow> exec_statement body (bind_parameters ps args rt)
      | _ \<Rightarrow> Inl TypeError)"

section \<open>The invariant of the grouping loop\<close>


section \<open>The frame of the statement rewriter\<close>

text \<open>
  Two states that differ at most in the exported-name registry and the pending function
  exports: the statement rewriter changes nothing else of the per-file state.
\<close>

definition same_file :: "file_state \<Rightarrow> file_state \<Rightarrow> bool" where
  "same_file st st' =
     (currentSourceFile st' = currentSourceFile st
      \<and> externalImports st' = externalImports st
      \<and> exportSpecifiers st' = exportSpecifiers st
      \<and> exportEquals st' = exportEquals st
      \<and> hasExportStars st' = hasExportStars st
      \<and> exportFunctionForFile st' = exportFunctionForFile st
      \<and> contextObjectForFile st' = contextObjectForFile st)"

section \<open>The tree of the star-export helper\<close>

text \<open>
  Names for the parts of the declaration that \<^verbatim>\<open>addExportStarFunction\<close> builds (lines
  1098 to 1155), so that statements about the helper can refer to them: the body of its
  \<^verbatim>\<open>for..in\<close> loop, the condition under which a key is copied, and the whole
  declaration. Lemma \<open>addExportStarFunction_helper\<close> shows that the function appends
  exactly this declaration.
\<close>

definition star_copy_body :: "expression \<Rightarrow> statement" where
  "star_copy_body condition =
     Block
       [IfStatement condition
          (ExpressionStatement
             (BinaryExpression
                (ElementAccessExpression (IdentifierNode (Identifier ''exports''))
                   (IdentifierNode (Identifier ''n'')))
                EqualsToken
                (ElementAccessExpression (IdentifierNode (Identifier ''m''))
                   (IdentifierNode (Identifier ''n'')))))]
       False []"

definition star_condition :: "ident option \<Rightarrow> expression" where
  "star_condition localNames =
     (case localNames of
        Some names \<Rightarrow>
          BinaryExpression
            (BinaryExpression (IdentifierNode (Identifier ''n'')) ExclamationEqualsEqualsToken
               (StringLiteral ''default''))
            AmpersandAmpersandToken
            (PrefixUnaryExpression ExclamationToken
               (HasOwnPropertyCall (IdentifierNode names) (IdentifierNode (Identifier ''n''))))
      | None \<Rightarrow>
          BinaryExpression (IdentifierNode (Identifier ''n'')) ExclamationEqualsEqualsToken
            (StringLiteral ''default''))"

definition star_helper :: "file_state \<Rightarrow> ident option \<Rightarrow> ident \<Rightarrow> statement" where
  "star_helper st localNames exportStarFunction =
     FunctionDeclaration 0 [] False (Some exportStarFunction) [Identifier ''m'']
       (Block
          [VariableStatement []
             [(BindingIdentifier (Identifier ''exports''), Some (ObjectLiteralExpression [] False))],
           ForInStatement [(BindingIdentifier (Identifier ''n''), None)]
             (IdentifierNode (Identifier ''m''))
             (star_copy_body (star_condition localNames)),
           ExpressionStatement
             (CallExpression (identifier_node (exportFunctionForFile st))
                [IdentifierNode (Identifier ''exports'')])]
          False [])"

text \<open>
  The keys of the properties that \<open>exportedNamesOfImports\<close> writes: the names that the
  re-export clauses of the file export.
\<close>

definition reexported_names :: "statement list \<Rightarrow> string list" where
  "reexported_names imports = map (\<lambda>p. property_key (fst p)) (exportedNamesOfImports imports)"

section \<open>Example inputs\<close>

text \<open>
  A resolver for which exactly the identifier \<^verbatim>\<open>x\<close> is an exported binding of the
  file, and the state of a file whose exporter parameter is \<^verbatim>\<open>exports_1\<close>.
\<close>

definition example_resolver :: emit_resolver where
  "example_resolver =
     \<lparr>getReferencedExportContainer =
        (\<lambda>i. if i = Identifier ''x'' then Some SourceFileContainer else None),
      getReferencedValueDeclaration = (\<lambda>i. True),
      isValueAliasDeclaration = (\<lambda>s. True),
      isValueAliasSpecifier = (\<lambda>s. True)\<rparr>"

definition example_state :: file_state where
  "example_state =
     \<lparr>currentSourceFile = None, externalImports = None, exportSpecifiers = None,
      exportEquals = None, hasExportStars = None,
      exportFunctionForFile = Some (UniqueName ''exports'' 1),
      contextObjectForFile = Some (UniqueName ''context'' 2),
      exportedLocalNames = None, exportedFunctionDeclarations = None\<rparr>"


text \<open>
  A module with a prologue directive, two imports from \<^verbatim>\<open>"dep"\<close>, a star export from
  \<^verbatim>\<open>"m"\<close>, an exported variable, an exported function and a re-export from
  \<^verbatim>\<open>"lib"\<close>, which the file's rename table maps to \<^verbatim>\<open>"m"\<close>:
  \<^verbatim>\<open>"use strict"; import {x} from "dep"; export * from "m"; import * as ns from "dep";
  export var a = 1; export function f() {} export {b as c} from "lib";\<close>
\<close>

definition example_import_x :: statement where
  "example_import_x =
     ImportDeclaration 1
       (Some \<lparr>clause_name = None,
              namedBindings = Some (NamedImports
                [\<lparr>specifier_propertyName = None, specifier_name = Identifier ''x''\<rparr>])\<rparr>)
       (StringLiteral ''dep'')"

definition example_export_star :: statement where
  "example_export_star = ExportDeclaration 2 None (Some (StringLiteral ''m''))"

definition example_import_ns :: statement where
  "example_import_ns =
     ImportDeclaration 3
       (Some \<lparr>clause_name = None, namedBindings = Some (NamespaceImport (Identifier ''ns''))\<rparr>)
       (StringLiteral ''dep'')"

definition example_reexport :: statement where
  "example_reexport =
     ExportDeclaration 5
       (Some [\<lparr>specifier_propertyName = Some (Identifier ''b''), specifier_name = Identifier ''c''\<rparr>])
       (Some (StringLiteral ''lib''))"

definition example_entries :: "statement list" where
  "example_entries = [example_import_x, example_export_star, example_import_ns, example_reexport]"

definition example_file :: source_file where
  "example_file =
     \<lparr>externalModuleIndicator = True,
      moduleName = Some ''app'',
      renamedDependencies = Some [(''lib'', ''m'')],
      statements =
        [ExpressionStatement (StringLiteral ''use strict''),
         example_import_x,
         example_export_star,
         example_import_ns,
         VariableStatement [ModifierFlags_Export]
           [(BindingIdentifier (Identifier ''a''), Some (NumericLiteral 1))],
         FunctionDeclaration 4 [ModifierFlags_Export] False (Some (Identifier ''f'')) []
           (Block [] False []),
         example_reexport]\<rparr>"

text \<open>
  A host whose collector reports the four entries of the example module and a star
  export, and which copies the leading string-literal expression statements as prologue
  directives.
\<close>

definition example_host :: host where
  "example_host =
     \<lparr>compilerOptions = \<lparr>isolatedModules = False\<rparr>,
      emitResolver = example_resolver,
      collectExternalModuleInfo =
        (\<lambda>f r. \<lparr>info_externalImports = example_entries, info_exportSpecifiers = [],
                  info_exportEquals = None, info_hasExportStars = True\<rparr>),
      addPrologueDirectives =
        (\<lambda>ss. (takeWhile (\<lambda>s. case s of ExpressionStatement (StringLiteral d) \<Rightarrow> True | _ \<Rightarrow> False) ss,
                length (takeWhile (\<lambda>s. case s of ExpressionStatement (StringLiteral d) \<Rightarrow> True | _ \<Rightarrow> False) ss)))\<rparr>"


text \<open>The same file as a script: it has no external module indicator.\<close>

definition example_script :: source_file where
  "example_script = example_file\<lparr>externalModuleIndicator := False\<rparr>"

text \<open>The declaration \<^verbatim>\<open>export default function f() {}\<close>.\<close>

definition example_default_function :: statement where
  "example_default_function =
     FunctionDeclaration 7 [ModifierFlags_Export, ModifierFlags_Default] False
       (Some (Identifier ''f'')) [] (Block [] False [])"

text \<open>
  A module without any star export, \<^verbatim>\<open>export var x = 1;\<close>, and a host whose collector
  reports what the file holds: no external imports, no export specifiers, no
  \<^verbatim>\<open>export =\<close> and no star export.
\<close>

definition example_plain_file :: source_file where
  "example_plain_file =
     \<lparr>externalModuleIndicator = True,
      moduleName = None,
      renamedDependencies = None,
      statements =
        [VariableStatement [ModifierFlags_Export]
           [(BindingIdentifier (Identifier ''x''), Some (NumericLiteral 1))]]\<rparr>"

definition example_plain_host :: host where
  "example_plain_host =
     \<lparr>compilerOptions = \<lparr>isolatedModules = False\<rparr>,
      emitResolver = example_resolver,
      collectExternalModuleInfo =
        (\<lambda>f r. \<lparr>info_externalImports = [], info_exportSpecifiers = [],
                  info_exportEquals = None, info_hasExportStars = False\<rparr>),
      addPrologueDirectives = (\<lambda>ss. ([], 0))\<rparr>"



section \<open>Theorems\<close>

lemmas builder_defs = createSubtract_def createAdd_def createAssignment_def createLogicalAnd_def
  createStrictInequality_def createLogicalNot_def createPrefix_def createCall_def
  createHasOwnProperty_def createStatement_def identifier_node_def

lemmas transform_defs = transformSourceFile_def transformSystemModuleWorker_def isExternalModule_def
  addSystemModuleBody_def visitNodes_def visitSourceElement_def visitNestedNode_def
  visitImportDeclaration_def visitImportEqualsDeclaration_def visitExportDeclaration_def
  visitExportSpecifier_def visitExportAssignment_def visitVariableStatement_def transformVariable_def
  visitFunctionDeclaration_def visitClassDeclaration_def
  addExportStarIfNeeded_def addExportStarFunction_def hasExportDeclarationWithExportClause_def
  exportedNamesOfClause_def exportedNamesOfImports_def generateSetters_def setterStatementsOfEntry_def
  setterProperties_def moduleNameDeclaration_def updateSourceFile_def
  collectDependencyGroups_def getExternalModuleNameLiteral_def tryRenameExternalModule_def
  getNameOfDependencyGroup_def createUniqueName_def hoistVariableDeclaration_def
  hoistFunctionDeclaration_def startLexicalEnvironment_def endLexicalEnvironment_def
  hasModifier_def getGeneratedNameForNode_def contains_node_def isEmpty_def
  createFunctionDeclaration_def recordExportName_def getDeclarationName_def
  createDeclarationExport_def recordExportedFunctionDeclaration_def
  getLocalNameForExternalImport_def getLocalNameTextForExternalImport_def
  createExportExpression_def createExportStatement_def

lemmas example_defs = example_plain_host_def example_plain_file_def example_host_def example_file_def example_entries_def example_import_x_def
  example_export_star_def example_import_ns_def example_reexport_def example_resolver_def
  example_state_def example_script_def example_default_function_def
  initial_state_def initial_context_def cleared_state_def


subsection \<open>Postfix increment and decrement of an exported name\<close>



subsection \<open>Dependency groups\<close>

lemma first_occurrences_snoc:
  "rev (remdups (rev (xs @ [x]))) =
     (if x \<in> set xs then rev (remdups (rev xs)) else rev (remdups (rev xs)) @ [x])"
  by simp

lemma group_text_literal: "group_name g = StringLiteral t \<Longrightarrow> group_text g = t"
  by (simp add: group_text_def)











subsection \<open>The shape of the module body\<close>




lemma same_file_recordExportedFunctionDeclaration:
  "same_file st (recordExportedFunctionDeclaration d st)"
  by (simp add: same_file_def recordExportedFunctionDeclaration_def)

























subsection \<open>The per-file state\<close>

text \<open>
  Claim C9. For a source file that is not an external module, with the isolated-modules
  option off, the transform returns the input file itself and leaves the per-file state
  (and the emit context) as they were.
\<close>

theorem transformSourceFile_returns_script_unchanged:
  assumes "\<not> isExternalModule node" and "\<not> isolatedModules (compilerOptions h)"
  shows "transformSourceFile h node st cx = Inr (node, st, cx)"
  using assms by (simp add: transformSourceFile_def)

theorem transformSourceFile_script_example:
  "\<not> isExternalModule example_script
   \<and> \<not> isolatedModules (compilerOptions example_host)
   \<and> transformSourceFile example_host example_script example_state initial_context
       = Inr (example_script, example_state, initial_context)"
proof -
  have script: "\<not> isExternalModule example_script"
    by (simp add: isExternalModule_def example_script_def)
  have option_off: "\<not> isolatedModules (compilerOptions example_host)"
    by (simp add: example_host_def)
  show ?thesis
    using transformSourceFile_returns_script_unchanged [OF script option_off] script option_off
    by simp
qed



subsection \<open>Export assignments\<close>

text \<open>
  Claim C2, as amended. An export assignment is rewritten into a call of the exporter
  with the literal key \<^verbatim>\<open>"default"\<close> and the operand exactly when it is not an
  \<^verbatim>\<open>export =\<close> (that is, it is \<^verbatim>\<open>export default <expression>\<close>) and the resolver
  reports it as a value; every \<^verbatim>\<open>export =\<close> statement is removed without a
  replacement.
\<close>

theorem export_assignment_rewritten_unless_export_equals:
  "visitExportAssignment rs st (ExportAssignment k isExportEquals e) =
     (if \<not> isExportEquals \<and> isValueAliasDeclaration rs (ExportAssignment k isExportEquals e)
      then Some (createStatement
                   (createCall (identifier_node (exportFunctionForFile st))
                      [StringLiteral ''default'', e]))
      else None)"
  by (auto simp add: visitExportAssignment_def createExportStatement_def createExportExpression_def)

text \<open>\<^verbatim>\<open>export default x\<close> becomes \<^verbatim>\<open>exports_1("default", x)\<close>.\<close>

theorem export_default_example:
  "visitExportAssignment example_resolver example_state
     (ExportAssignment 9 False (IdentifierNode (Identifier ''x''))) =
   Some (ExpressionStatement
           (CallExpression (IdentifierNode (UniqueName ''exports'' 1))
              [StringLiteral ''default'', IdentifierNode (Identifier ''x'')]))"
  using export_assignment_rewritten_unless_export_equals
    [of example_resolver example_state 9 False "IdentifierNode (Identifier ''x'')"]
  by (simp add: example_resolver_def example_state_def builder_defs)

text \<open>
  The claim as stated fails: \<^verbatim>\<open>export = x\<close>, whose operand the resolver reports as a
  value, is not rewritten into an export under \<^verbatim>\<open>"default"\<close>; the statement rewriter
  removes it.
\<close>

theorem export_equals_is_dropped:
  "isValueAliasDeclaration example_resolver
     (ExportAssignment 9 True (IdentifierNode (Identifier ''x'')))
   \<and> visitExportAssignment example_resolver example_state
        (ExportAssignment 9 True (IdentifierNode (Identifier ''x''))) = None
   \<and> visitSourceElement example_resolver
        (ExportAssignment 9 True (IdentifierNode (Identifier ''x''))) example_state initial_context
      = Inr ([], example_state, initial_context)"
  by (simp add: visitSourceElement_def visitExportAssignment_def example_resolver_def)

subsection \<open>Exported function declarations\<close>

text \<open>
  What the code does for every exported function declaration with a name: it hoists the
  rewritten declaration, queues the export of the function under its own name and adds
  the name to the exported-name registry. The default modifier makes no difference,
  because it is tested on the rewritten declaration, which has no modifiers.
\<close>

lemma exported_function_declaration_recorded:
  assumes "ModifierFlags_Export \<in> set mods"
  shows "visitFunctionDeclaration (FunctionDeclaration k mods a (Some n) ps b) st cx =
     (st\<lparr>exportedFunctionDeclarations :=
           Some ((case exportedFunctionDeclarations st of None \<Rightarrow> [] | Some ds \<Rightarrow> ds)
                 @ [createStatement
                      (createCall (identifier_node (exportFunctionForFile st))
                         [StringLiteral (identifier_text n), IdentifierNode n])]),
         exportedLocalNames :=
           Some ((case exportedLocalNames st of None \<Rightarrow> [] | Some ns \<Rightarrow> ns) @ [n])\<rparr>,
      cx\<lparr>hoistedFunctionDeclarations :=
           hoistedFunctionDeclarations cx @ [FunctionDeclaration k [] a (Some n) ps b]\<rparr>)"
  using assms
  by (simp add: visitFunctionDeclaration_def hasModifier_def createFunctionDeclaration_def
      recordExportedFunctionDeclaration_def recordExportName_def createDeclarationExport_def
      getDeclarationName_def createExportStatement_def createExportExpression_def
      hoistFunctionDeclaration_def Let_def)

text \<open>
  The sibling path for classes tests the modifiers of the original declaration: a default
  exported class is exported under \<^verbatim>\<open>"default"\<close> and its name is not recorded.
\<close>

lemma default_class_export_uses_default_key:
  assumes "ModifierFlags_Export \<in> set mods" and "ModifierFlags_Default \<in> set mods"
  shows "visitClassDeclaration (ClassDeclaration k mods (Some n) members) st cx =
     ([createStatement (createAssignment (IdentifierNode n) (ClassExpression (Some n) members)),
       createStatement
         (createCall (identifier_node (exportFunctionForFile st))
            [StringLiteral ''default'', IdentifierNode n])],
      st, hoistVariableDeclaration n cx)"
  using assms
  by (simp add: visitClassDeclaration_def hasModifier_def createDeclarationExport_def
      getDeclarationName_def createExportStatement_def createExportExpression_def Let_def)

text \<open>
  Claim C4 at the input \<^verbatim>\<open>export default function f() {}\<close>: the name \<^verbatim>\<open>f\<close> is
  added to the exported-name registry and the queued export statement is
  \<^verbatim>\<open>exports_1("f", f)\<close>, not \<^verbatim>\<open>exports_1("default", f)\<close>.
\<close>

theorem default_function_export_recorded_by_name:
  "visitFunctionDeclaration example_default_function example_state initial_context =
     (example_state
        \<lparr>exportedFunctionDeclarations :=
           Some [ExpressionStatement
                   (CallExpression (IdentifierNode (UniqueName ''exports'' 1))
                      [StringLiteral ''f'', IdentifierNode (Identifier ''f'')])],
         exportedLocalNames := Some [Identifier ''f'']\<rparr>,
      initial_context
        \<lparr>hoistedFunctionDeclarations :=
           [FunctionDeclaration 7 [] False (Some (Identifier ''f'')) [] (Block [] False [])]\<rparr>)"
  by (simp add: exported_function_declaration_recorded example_default_function_def
      example_state_def initial_context_def builder_defs)

subsection \<open>The registration call\<close>








subsection \<open>The imports that are hoisted\<close>

text \<open>
  The import visitors hoist the local name of the declaration they visit; for the
  declarations they accept that name is defined.
\<close>

lemma hoisted_import_name_defined:
  "getLocalNameForExternalImport (ImportDeclaration k (Some c) m) \<noteq> None"
  "getLocalNameForExternalImport (ImportEqualsDeclaration k n m) \<noteq> None"
  by (simp_all add: getLocalNameForExternalImport_def
      split: option.splits named_bindings.splits bool.splits)

subsection \<open>The star-export helper\<close>

text \<open>
  One round of the helper's loop copies the current key when the condition holds; the
  loop over the keys of the namespace object therefore leaves in \<^verbatim>\<open>exports\<close> the
  properties whose key satisfies the condition, in their order.
\<close>

lemma object_put_fresh: "k \<notin> fst ` set acc \<Longrightarrow> object_put k v acc = acc @ [(k, v)]"
  by (induction acc) auto

lemma star_copy_step:
  assumes m: "variables rt (Identifier ''m'') = Some (JSObject ns)"
    and e: "variables rt (Identifier ''exports'') = Some (JSObject acc)"
    and n: "variables rt (Identifier ''n'') = Some (JSString k)"
    and v: "map_of ns k = Some v"
    and fresh: "k \<notin> fst ` set acc"
    and cond: "eval_expression condition rt = Inr (JSBoolean keep, rt)"
  shows "exec_statement (star_copy_body condition) rt =
     Inr (if keep then assign (Identifier ''exports'') (JSObject (acc @ [(k, v)])) rt else rt)"
  using assms
  by (simp add: star_copy_body_def read_element_def store_element_def object_get_def
      object_put_fresh)


lemma star_copy_loop:
  fixes keep :: "string \<Rightarrow> bool" and P :: "runtime \<Rightarrow> bool"
  assumes cond: "\<And>rt key. P rt \<Longrightarrow> variables rt (Identifier ''n'') = Some (JSString key) \<Longrightarrow>
        eval_expression condition rt = Inr (JSBoolean (keep key), rt)"
    and stable: "\<And>rt x v. P rt \<Longrightarrow> x = Identifier ''n'' \<or> x = Identifier ''exports'' \<Longrightarrow>
        P (assign x v rt)"
  shows "P rt \<Longrightarrow> variables rt (Identifier ''m'') = Some (JSObject ns) \<Longrightarrow>
      variables rt (Identifier ''exports'') = Some (JSObject acc) \<Longrightarrow>
      \<forall>p\<in>set ps. map_of ns (fst p) = Some (snd p) \<Longrightarrow>
      distinct (map fst ps) \<Longrightarrow>
      \<forall>p\<in>set ps. fst p \<notin> fst ` set acc \<Longrightarrow>
      \<exists>rt'. exec_for_in (Identifier ''n'') (map fst ps) (star_copy_body condition) rt = Inr rt'
        \<and> P rt'
        \<and> variables rt' (Identifier ''exports'')
            = Some (JSObject (acc @ filter (\<lambda>p. keep (fst p)) ps))
        \<and> exporterCalls rt' = exporterCalls rt
        \<and> (\<forall>x. x \<noteq> Identifier ''n'' \<longrightarrow> x \<noteq> Identifier ''exports'' \<longrightarrow>
              variables rt' x = variables rt x)"
proof (induction ps arbitrary: rt acc)
  case Nil
  then show ?case by simp
next
  case (Cons p ps)
  obtain k v where p: "p = (k, v)" by (cases p)
  define rt1 where "rt1 = assign (Identifier ''n'') (JSString k) rt"
  define acc' where "acc' = (if keep k then acc @ [(k, v)] else acc)"
  define rt2 where "rt2 = (if keep k
      then assign (Identifier ''exports'') (JSObject (acc @ [(k, v)])) rt1 else rt1)"
  have P1: "P rt1"
    unfolding rt1_def using Cons.prems(1) by (intro stable) simp_all
  have m1: "variables rt1 (Identifier ''m'') = Some (JSObject ns)"
    and e1: "variables rt1 (Identifier ''exports'') = Some (JSObject acc)"
    and n1: "variables rt1 (Identifier ''n'') = Some (JSString k)"
    using Cons.prems(2,3) by (simp_all add: rt1_def assign_def)
  have value_k: "map_of ns k = Some v"
    using Cons.prems(4) p by simp
  have fresh_k: "k \<notin> fst ` set acc"
    using Cons.prems(6) p by simp
  have step: "exec_statement (star_copy_body condition) rt1 = Inr rt2"
    unfolding rt2_def
    using star_copy_step [OF m1 e1 n1 value_k fresh_k cond [OF P1 n1]] .
  have P2: "P rt2"
    unfolding rt2_def using P1 by (simp add: stable)
  have m2: "variables rt2 (Identifier ''m'') = Some (JSObject ns)"
    using m1 by (simp add: rt2_def assign_def)
  have e2: "variables rt2 (Identifier ''exports'') = Some (JSObject acc')"
    using e1 by (simp add: rt2_def acc'_def assign_def)
  have values_rest: "\<forall>q\<in>set ps. map_of ns (fst q) = Some (snd q)"
    using Cons.prems(4) by simp
  have dist_rest: "distinct (map fst ps)"
    using Cons.prems(5) by simp
  have fresh_rest: "\<forall>q\<in>set ps. fst q \<notin> fst ` set acc'"
    using Cons.prems(5,6) p by (auto simp add: acc'_def image_iff)
  from Cons.IH [OF P2 m2 e2 values_rest dist_rest fresh_rest] obtain rt' where
    run: "exec_for_in (Identifier ''n'') (map fst ps) (star_copy_body condition) rt2 = Inr rt'"
    and P': "P rt'"
    and e': "variables rt' (Identifier ''exports'')
        = Some (JSObject (acc' @ filter (\<lambda>p. keep (fst p)) ps))"
    and calls: "exporterCalls rt' = exporterCalls rt2"
    and frame: "\<forall>x. x \<noteq> Identifier ''n'' \<longrightarrow> x \<noteq> Identifier ''exports'' \<longrightarrow>
          variables rt' x = variables rt2 x"
    by (elim exE conjE)
  have whole: "exec_for_in (Identifier ''n'') (map fst (p # ps)) (star_copy_body condition) rt = Inr rt'"
    using step run p by (simp add: rt1_def)
  have result: "acc' @ filter (\<lambda>p. keep (fst p)) ps = acc @ filter (\<lambda>p. keep (fst p)) (p # ps)"
    using p by (simp add: acc'_def)
  have calls2: "exporterCalls rt2 = exporterCalls rt"
    by (simp add: rt2_def rt1_def assign_def)
  have frame2: "\<forall>x. x \<noteq> Identifier ''n'' \<longrightarrow> x \<noteq> Identifier ''exports'' \<longrightarrow>
          variables rt2 x = variables rt x"
    by (simp add: rt2_def rt1_def assign_def)
  show ?case
    apply (rule exI [of _ rt'])
    using whole P' e' calls calls2 frame frame2 result
    apply simp
    done
qed


lemma addExportStarFunction_helper:
  "addExportStarFunction st stmts localNames cx =
     (stmts @ [star_helper st localNames (UniqueName ''exportStar'' (uniqueNameCount cx))],
      UniqueName ''exportStar'' (uniqueNameCount cx),
      cx\<lparr>uniqueNameCount := Suc (uniqueNameCount cx)\<rparr>)"
  by (cases localNames)
    (simp_all add: addExportStarFunction_def star_helper_def star_copy_body_def star_condition_def
      createUniqueName_def createFunctionDeclaration_def builder_defs Let_def)

lemma star_helper_call:
  fixes keep :: "string \<Rightarrow> bool" and P :: "runtime \<Rightarrow> bool"
  assumes cond: "\<And>rt key. P rt \<Longrightarrow> variables rt (Identifier ''n'') = Some (JSString key) \<Longrightarrow>
        eval_expression (star_condition localNames) rt = Inr (JSBoolean (keep key), rt)"
    and stable: "\<And>rt x v. P rt \<Longrightarrow>
        x = Identifier ''n'' \<or> x = Identifier ''exports'' \<or> x = Identifier ''m'' \<Longrightarrow>
        P (assign x v rt)"
    and P: "P rt"
    and exporter: "exportFunctionForFile st = Some (UniqueName e k)"
    and bound: "variables rt (UniqueName e k) = Some JSExporter"
    and keys: "distinct (map fst ns)"
  shows "\<exists>rt'. call_function (star_helper st localNames f) [JSObject ns] rt = Inr rt'
        \<and> exporterCalls rt' = exporterCalls rt @ [[JSObject (filter (\<lambda>p. keep (fst p)) ns)]]"
proof -
  define rt0 where "rt0 = assign (Identifier ''exports'') (JSObject [])
      (assign (Identifier ''m'') (JSObject ns) rt)"
  have P0: "P rt0"
    unfolding rt0_def using P by (simp add: stable)
  have m0: "variables rt0 (Identifier ''m'') = Some (JSObject ns)"
    and e0: "variables rt0 (Identifier ''exports'') = Some (JSObject [])"
    by (simp_all add: rt0_def assign_def)
  have vals: "\<forall>p\<in>set ns. map_of ns (fst p) = Some (snd p)"
    using keys by simp
  have fresh: "\<forall>p\<in>set ns. fst p \<notin> fst ` set ([] :: (string \<times> js_value) list)"
    by simp
  have stable': "\<And>rt x v. P rt \<Longrightarrow> x = Identifier ''n'' \<or> x = Identifier ''exports'' \<Longrightarrow>
        P (assign x v rt)"
    using stable by blast
  have "\<exists>rt'. exec_for_in (Identifier ''n'') (map fst ns)
          (star_copy_body (star_condition localNames)) rt0 = Inr rt'
        \<and> P rt'
        \<and> variables rt' (Identifier ''exports'')
            = Some (JSObject ([] @ filter (\<lambda>p. keep (fst p)) ns))
        \<and> exporterCalls rt' = exporterCalls rt0
        \<and> (\<forall>x. x \<noteq> Identifier ''n'' \<longrightarrow> x \<noteq> Identifier ''exports'' \<longrightarrow>
              variables rt' x = variables rt0 x)"
  proof (rule star_copy_loop [where P = P and keep = keep])
    show "\<And>rt key. P rt \<Longrightarrow> variables rt (Identifier ''n'') = Some (JSString key) \<Longrightarrow>
        eval_expression (star_condition localNames) rt = Inr (JSBoolean (keep key), rt)"
      by (rule cond)
    show "\<And>rt x v. P rt \<Longrightarrow> x = Identifier ''n'' \<or> x = Identifier ''exports'' \<Longrightarrow>
        P (assign x v rt)"
      by (rule stable') 
  qed (rule P0 m0 e0 vals keys fresh)+
  then obtain rt1 where
    loop: "exec_for_in (Identifier ''n'') (map fst ns) (star_copy_body (star_condition localNames)) rt0
      = Inr rt1"
    and e1: "variables rt1 (Identifier ''exports'')
        = Some (JSObject ([] @ filter (\<lambda>p. keep (fst p)) ns))"
    and calls1: "exporterCalls rt1 = exporterCalls rt0"
    and frame: "\<forall>x. x \<noteq> Identifier ''n'' \<longrightarrow> x \<noteq> Identifier ''exports'' \<longrightarrow>
          variables rt1 x = variables rt0 x"
    by (elim exE conjE)
  have ef1: "variables rt1 (UniqueName e k) = Some JSExporter"
    using frame bound by (simp add: rt0_def assign_def)
  have calls0: "exporterCalls rt0 = exporterCalls rt"
    by (simp add: rt0_def assign_def)
  have "call_function (star_helper st localNames f) [JSObject ns] rt =
      Inr (rt1\<lparr>exporterCalls := exporterCalls rt1 @ [[JSObject (filter (\<lambda>p. keep (fst p)) ns)]]\<rparr>)"
    using loop e1 ef1 exporter m0
    by (simp add: call_function_def star_helper_def identifier_node_def rt0_def)
  then show ?thesis
    using calls1 calls0 by simp
qed



lemma star_condition_with_map:
  assumes "variables rt (UniqueName s j) = Some (JSObject excluded)"
    and "variables rt (Identifier ''n'') = Some (JSString key)"
  shows "eval_expression (star_condition (Some (UniqueName s j))) rt =
     Inr (JSBoolean (key \<noteq> ''default'' \<and> key \<notin> fst ` set excluded), rt)"
  using assms by (simp add: star_condition_def binary_value_def has_own_property_def)



text \<open>
  The map that \<^verbatim>\<open>addExportStarIfNeeded\<close> declares holds the recorded local names and
  the names of the re-export clauses, so a star export never overrides one of them.
\<close>

lemma object_put_map_fst:
  "map fst (object_put k v acc) =
     (if k \<in> set (map fst acc) then map fst acc else map fst acc @ [k])"
proof (induction acc)
  case Nil
  show ?case by simp
next
  case (Cons p acc)
  obtain a b where p: "p = (a, b)" by (cases p)
  show ?case using Cons by (simp add: p)
qed

lemma object_put_keys: "fst ` set (object_put k v acc) = insert k (fst ` set acc)"
proof -
  have "set (map fst (object_put k v acc)) = insert k (set (map fst acc))"
    unfolding object_put_map_fst by auto
  then show ?thesis by simp
qed

lemma eval_properties_literals:
  "\<forall>p\<in>set ps. snd p = BooleanLiteral True \<Longrightarrow>
     \<exists>obj. eval_properties ps acc rt = Inr (obj, rt)
       \<and> fst ` set obj = fst ` set acc \<union> (\<lambda>p. property_key (fst p)) ` set ps"
proof (induction ps arbitrary: acc)
  case Nil
  then show ?case by simp
next
  case (Cons p ps)
  have p: "snd p = BooleanLiteral True" and rest: "\<forall>q\<in>set ps. snd q = BooleanLiteral True"
    using Cons.prems by simp_all
  from Cons.IH [OF rest, of "object_put (property_key (fst p)) (JSBoolean True) acc"]
  obtain obj where
    run: "eval_properties ps (object_put (property_key (fst p)) (JSBoolean True) acc) rt = Inr (obj, rt)"
    and ks: "fst ` set obj = fst ` set (object_put (property_key (fst p)) (JSBoolean True) acc)
        \<union> (\<lambda>p. property_key (fst p)) ` set ps"
    by (elim exE conjE)
  have "eval_properties (p # ps) acc rt = Inr (obj, rt)"
    using run p by simp
  moreover have "fst ` set obj = fst ` set acc \<union> (\<lambda>p. property_key (fst p)) ` set (p # ps)"
    using ks by (simp add: object_put_keys)
  ultimately show ?case by blast
qed


lemma star_export_excludes_exported_names:
  assumes entries: "externalImports st = Some entries"
    and registry: "exportedLocalNames st = Some registered"
    and exporter: "exportFunctionForFile st = Some (UniqueName e k)"
    and earlier: "k < uniqueNameCount cx"
    and bound: "variables rt (UniqueName e k) = Some JSExporter"
    and keys: "distinct (map fst ns)"
  shows "\<exists>mapDeclaration helper helperName cx' rt1 rt2.
      addExportStarIfNeeded st stmts cx = Inr (stmts @ [mapDeclaration, helper], helperName, cx')
      \<and> exec_statement mapDeclaration rt = Inr rt1
      \<and> call_function helper [JSObject ns] rt1 = Inr rt2
      \<and> exporterCalls rt2 =
          exporterCalls rt @
            [[JSObject (filter (\<lambda>p. fst p \<noteq> ''default''
                                  \<and> fst p \<notin> set (map identifier_text registered)
                                  \<and> fst p \<notin> set (reexported_names entries)) ns)]]"
proof -
  define exportedNames where "exportedNames =
     map (\<lambda>exportedLocalName.
            (StringLiteralName (identifier_text exportedLocalName), BooleanLiteral True)) registered
       @ exportedNamesOfImports entries"
  define ref where "ref = UniqueName ''exportedNames'' (uniqueNameCount cx)"
  define cx1 where "cx1 = cx\<lparr>uniqueNameCount := Suc (uniqueNameCount cx)\<rparr>"
  define mapDeclaration where "mapDeclaration =
     VariableStatement [] [(BindingIdentifier ref, Some (ObjectLiteralExpression exportedNames False))]"
  define helper where "helper = star_helper st (Some ref) (UniqueName ''exportStar'' (uniqueNameCount cx1))"
  have emitted: "addExportStarIfNeeded st stmts cx =
      Inr (stmts @ [mapDeclaration, helper], UniqueName ''exportStar'' (uniqueNameCount cx1),
           cx1\<lparr>uniqueNameCount := Suc (uniqueNameCount cx1)\<rparr>)"
    using entries registry
    by (simp add: addExportStarIfNeeded_def addExportStarFunction_helper createUniqueName_def
        Let_def exportedNames_def ref_def cx1_def mapDeclaration_def helper_def)
  have literals: "\<forall>p\<in>set exportedNames. snd p = BooleanLiteral True"
    by (auto simp add: exportedNames_def exportedNamesOfImports_def exportedNamesOfClause_def
        split: statement.splits option.splits)
  from eval_properties_literals [OF literals, of "[]" rt] obtain obj where
    obj: "eval_properties exportedNames [] rt = Inr (obj, rt)"
    and obj_keys: "fst ` set obj = fst ` set ([] :: (string \<times> js_value) list)
        \<union> (\<lambda>p. property_key (fst p)) ` set exportedNames"
    by (elim exE conjE)
  define rt1 where "rt1 = assign ref (JSObject obj) rt"
  have declared: "exec_statement mapDeclaration rt = Inr rt1"
    using obj by (simp add: mapDeclaration_def rt1_def)
  have bound1: "variables rt1 (UniqueName e k) = Some JSExporter"
    using bound earlier by (auto simp add: rt1_def assign_def ref_def)
  have map1: "variables rt1 ref = Some (JSObject obj)"
    by (simp add: rt1_def assign_def)
  have calls1: "exporterCalls rt1 = exporterCalls rt"
    by (simp add: rt1_def assign_def)
  have "\<exists>rt'. call_function helper [JSObject ns] rt1 = Inr rt'
      \<and> exporterCalls rt' =
          exporterCalls rt1 @
            [[JSObject (filter (\<lambda>p. fst p \<noteq> ''default'' \<and> fst p \<notin> fst ` set obj) ns)]]"
    unfolding helper_def ref_def
  proof (rule star_helper_call
      [where P = "\<lambda>rt. variables rt (UniqueName ''exportedNames'' (uniqueNameCount cx)) = Some (JSObject obj)"
        and keep = "\<lambda>key. key \<noteq> ''default'' \<and> key \<notin> fst ` set obj"
        and e = e and k = k])
    show "\<And>rt key. variables rt (UniqueName ''exportedNames'' (uniqueNameCount cx)) = Some (JSObject obj) \<Longrightarrow>
        variables rt (Identifier ''n'') = Some (JSString key) \<Longrightarrow>
        eval_expression (star_condition (Some (UniqueName ''exportedNames'' (uniqueNameCount cx)))) rt =
          Inr (JSBoolean (key \<noteq> ''default'' \<and> key \<notin> fst ` set obj), rt)"
      by (rule star_condition_with_map)
    show "\<And>rt x v. variables rt (UniqueName ''exportedNames'' (uniqueNameCount cx)) = Some (JSObject obj) \<Longrightarrow>
        x = Identifier ''n'' \<or> x = Identifier ''exports'' \<or> x = Identifier ''m'' \<Longrightarrow>
        variables (assign x v rt) (UniqueName ''exportedNames'' (uniqueNameCount cx)) = Some (JSObject obj)"
      by (auto simp add: assign_def)
    show "variables rt1 (UniqueName ''exportedNames'' (uniqueNameCount cx)) = Some (JSObject obj)"
      using map1 by (simp add: ref_def)
  qed (simp_all add: exporter bound1 keys)
  then obtain rt2 where
    called: "call_function helper [JSObject ns] rt1 = Inr rt2"
    and calls2: "exporterCalls rt2 =
          exporterCalls rt1 @
            [[JSObject (filter (\<lambda>p. fst p \<noteq> ''default'' \<and> fst p \<notin> fst ` set obj) ns)]]"
    by (elim exE conjE)
  have key_set: "fst ` set obj = set (map identifier_text registered) \<union> set (reexported_names entries)"
    using obj_keys
    by (simp add: exportedNames_def reexported_names_def image_Un image_image property_key_def)
  have "exporterCalls rt2 =
          exporterCalls rt @
            [[JSObject (filter (\<lambda>p. fst p \<noteq> ''default''
                                  \<and> fst p \<notin> set (map identifier_text registered)
                                  \<and> fst p \<notin> set (reexported_names entries)) ns)]]"
    using calls2 calls1 key_set by simp
  then show ?thesis
    using emitted declared called by blast
qed

text \<open>
  The form of the helper: it is emitted without the map exactly when no local name has
  been recorded, there are no export specifiers and no export declaration has a clause;
  otherwise the declaration of the map precedes it.
\<close>

lemma addExportStarIfNeeded_form:
  assumes "externalImports st = Some entries"
  shows "addExportStarIfNeeded st stmts cx =
     Inr (if exportedLocalNames st = None \<and> isEmpty (exportSpecifiers st)
             \<and> \<not> hasExportDeclarationWithExportClause entries
          then (stmts @ [star_helper st None (UniqueName ''exportStar'' (uniqueNameCount cx))],
                UniqueName ''exportStar'' (uniqueNameCount cx),
                cx\<lparr>uniqueNameCount := Suc (uniqueNameCount cx)\<rparr>)
          else (stmts @
                [VariableStatement []
                   [(BindingIdentifier (UniqueName ''exportedNames'' (uniqueNameCount cx)),
                     Some (ObjectLiteralExpression
                       (map (\<lambda>exportedLocalName.
                               (StringLiteralName (identifier_text exportedLocalName),
                                BooleanLiteral True))
                          (case exportedLocalNames st of None \<Rightarrow> [] | Some ns \<Rightarrow> ns)
                        @ exportedNamesOfImports entries)
                       False))],
                 star_helper st (Some (UniqueName ''exportedNames'' (uniqueNameCount cx)))
                   (UniqueName ''exportStar'' (Suc (uniqueNameCount cx)))],
                UniqueName ''exportStar'' (Suc (uniqueNameCount cx)),
                cx\<lparr>uniqueNameCount := Suc (Suc (uniqueNameCount cx))\<rparr>))"
  using assms
  by (simp add: addExportStarIfNeeded_def addExportStarFunction_helper createUniqueName_def Let_def)

text \<open>
  Claim C3. The helper is emitted if and only if the file has a star export. The
  code does not do this: \<^verbatim>\<open>addExportStarIfNeeded\<close> never reads \<^verbatim>\<open>hasExportStars\<close>, so
  its result is the same whatever the flag holds, and for the module
  \<^verbatim>\<open>export var x = 1;\<close>, for which the collector reports no star export, the factory
  body holds the declaration of the map \<^verbatim>\<open>exportedNames_3\<close> and the helper
  \<^verbatim>\<open>exportStar_4\<close>.
\<close>

theorem star_helper_emitted_without_star_export:
  "addExportStarIfNeeded (st\<lparr>hasExportStars := flag\<rparr>) stmts cx = addExportStarIfNeeded st stmts cx
   \<and> info_hasExportStars
        (collectExternalModuleInfo example_plain_host example_plain_file
           (emitResolver example_plain_host)) = False
   \<and> transformSourceFile example_plain_host example_plain_file initial_state initial_context =
    Inr (\<lparr>externalModuleIndicator = True, moduleName = None,
             renamedDependencies = None,
             statements =
               [ExpressionStatement
                 (CallExpression
                   (PropertyAccessExpression
                     (IdentifierNode (Identifier ''System'')) ''register'')
                   [MissingExpression, ArrayLiteralExpression [],
                    FunctionExpression False None
                     [UniqueName ''exports'' 1, UniqueName ''context'' 2]
                     (Block
                       [VariableStatement []
                         [(BindingIdentifier (Identifier ''__moduleName''),
                           Some
                            (BinaryExpression
                              (IdentifierNode (UniqueName ''context'' 2))
                              AmpersandAmpersandToken
                              (PropertyAccessExpression
                                (IdentifierNode (UniqueName ''context'' 2))
                                ''id'')))],
                        VariableStatement []
                         [(BindingIdentifier (Identifier ''x''), None)],
                        VariableStatement []
                         [(BindingIdentifier (UniqueName ''exportedNames'' 3),
                           Some
                            (ObjectLiteralExpression
                              [(StringLiteralName ''x'', BooleanLiteral True)]
                              False))],
                        FunctionDeclaration 0 [] False
                         (Some (UniqueName ''exportStar'' 4)) [Identifier ''m'']
                         (Block
                           [VariableStatement []
                             [(BindingIdentifier (Identifier ''exports''),
                               Some (ObjectLiteralExpression [] False))],
                            ForInStatement
                             [(BindingIdentifier (Identifier ''n''), None)]
                             (IdentifierNode (Identifier ''m''))
                             (Block
                               [IfStatement
                                 (BinaryExpression
                                   (BinaryExpression
                                     (IdentifierNode (Identifier ''n''))
                                     ExclamationEqualsEqualsToken
                                     (StringLiteral ''default''))
                                   AmpersandAmpersandToken
                                   (PrefixUnaryExpression ExclamationToken
                                     (HasOwnPropertyCall
                                       (IdentifierNode
                                         (UniqueName ''exportedNames'' 3))
                                       (IdentifierNode (Identifier ''n'')))))
                                 (ExpressionStatement
                                   (BinaryExpression
                                     (ElementAccessExpression
                                       (IdentifierNode (Identifier ''exports''))
                                       (IdentifierNode (Identifier ''n'')))
                                     EqualsToken
                                     (ElementAccessExpression
                                       (IdentifierNode (Identifier ''m''))
                                       (IdentifierNode (Identifier ''n'')))))]
                               False []),
                            ExpressionStatement
                             (CallExpression
                               (IdentifierNode (UniqueName ''exports'' 1))
                               [IdentifierNode (Identifier ''exports'')])]
                           False []),
                        ReturnStatement
                         (ObjectLiteralExpression
                           [(IdentifierName ''setters'',
                             ArrayLiteralExpression []),
                            (IdentifierName ''execute'',
                             FunctionExpression True None []
                              (Block
                                [ExpressionStatement
                                  (BinaryExpression
                                    (IdentifierNode (Identifier ''x''))
                                    EqualsToken (NumericLiteral 1))]
                                False []))]
                           True)]
                       True [EmitEmitHelpers])])]\<rparr>,
          \<lparr>currentSourceFile = None, externalImports = None,
             exportSpecifiers = None, exportEquals = None,
             hasExportStars = Some False, exportFunctionForFile = None,
             contextObjectForFile = None, exportedLocalNames = None,
             exportedFunctionDeclarations = None\<rparr>,
          \<lparr>hoistedVariableDeclarations = [], hoistedFunctionDeclarations = [],
             lexicalEnvironmentStack = [], uniqueNameCount = 5\<rparr>)"
proof (intro conjI)
  show "addExportStarIfNeeded (st\<lparr>hasExportStars := flag\<rparr>) stmts cx
      = addExportStarIfNeeded st stmts cx"
    by (cases "externalImports st")
      (simp_all add: addExportStarIfNeeded_def addExportStarFunction_def)
  show "info_hasExportStars
        (collectExternalModuleInfo example_plain_host example_plain_file
           (emitResolver example_plain_host)) = False"
    by (simp add: example_plain_host_def)
  show "transformSourceFile example_plain_host example_plain_file initial_state initial_context =
    Inr (\<lparr>externalModuleIndicator = True, moduleName = None,
             renamedDependencies = None,
             statements =
               [ExpressionStatement
                 (CallExpression
                   (PropertyAccessExpression
                     (IdentifierNode (Identifier ''System'')) ''register'')
                   [MissingExpression, ArrayLiteralExpression [],
                    FunctionExpression False None
                     [UniqueName ''exports'' 1, UniqueName ''context'' 2]
                     (Block
                       [VariableStatement []
                         [(BindingIdentifier (Identifier ''__moduleName''),
                           Some
                            (BinaryExpression
                              (IdentifierNode (UniqueName ''context'' 2))
                              AmpersandAmpersandToken
                              (PropertyAccessExpression
                                (IdentifierNode (UniqueName ''context'' 2))
                                ''id'')))],
                        VariableStatement []
                         [(BindingIdentifier (Identifier ''x''), None)],
                        VariableStatement []
                         [(BindingIdentifier (UniqueName ''exportedNames'' 3),
                           Some
                            (ObjectLiteralExpression
                              [(StringLiteralName ''x'', BooleanLiteral True)]
                              False))],
                        FunctionDeclaration 0 [] False
                         (Some (UniqueName ''exportStar'' 4)) [Identifier ''m'']
                         (Block
                           [VariableStatement []
                             [(BindingIdentifier (Identifier ''exports''),
                               Some (ObjectLiteralExpression [] False))],
                            ForInStatement
                             [(BindingIdentifier (Identifier ''n''), None)]
                             (IdentifierNode (Identifier ''m''))
                             (Block
                               [IfStatement
                                 (BinaryExpression
                                   (BinaryExpression
                                     (IdentifierNode (Identifier ''n''))
                                     ExclamationEqualsEqualsToken
                                     (StringLiteral ''default''))
                                   AmpersandAmpersandToken
                                   (PrefixUnaryExpression ExclamationToken
                                     (HasOwnPropertyCall
                                       (IdentifierNode
                                         (UniqueName ''exportedNames'' 3))
                                       (IdentifierNode (Identifier ''n'')))))
                                 (ExpressionStatement
                                   (BinaryExpression
                                     (ElementAccessExpression
                                       (IdentifierNode (Identifier ''exports''))
                                       (IdentifierNode (Identifier ''n'')))
                                     EqualsToken
                                     (ElementAccessExpression
                                       (IdentifierNode (Identifier ''m''))
                                       (IdentifierNode (Identifier ''n'')))))]
                               False []),
                            ExpressionStatement
                             (CallExpression
                               (IdentifierNode (UniqueName ''exports'' 1))
                               [IdentifierNode (Identifier ''exports'')])]
                           False []),
                        ReturnStatement
                         (ObjectLiteralExpression
                           [(IdentifierName ''setters'',
                             ArrayLiteralExpression []),
                            (IdentifierName ''execute'',
                             FunctionExpression True None []
                              (Block
                                [ExpressionStatement
                                  (BinaryExpression
                                    (IdentifierNode (Identifier ''x''))
                                    EqualsToken (NumericLiteral 1))]
                                False []))]
                           True)]
                       True [EmitEmitHelpers])])]\<rparr>,
          \<lparr>currentSourceFile = None, externalImports = None,
             exportSpecifiers = None, exportEquals = None,
             hasExportStars = Some False, exportFunctionForFile = None,
             contextObjectForFile = None, exportedLocalNames = None,
             exportedFunctionDeclarations = None\<rparr>,
          \<lparr>hoistedVariableDeclarations = [], hoistedFunctionDeclarations = [],
             lexicalEnvironmentStack = [], uniqueNameCount = 5\<rparr>)"
    by (simp add: transform_defs example_defs builder_defs Let_def)
qed

end
